theory Spec2Isabelle
  imports Complex_Main "HOL-Library.Sublist" "HOL-Library.AList"
begin

section \<open>Python values, strings and printing\<close>

text \<open>
  The notebook is Python 2. A \<^verbatim>\<open>print fmt.format(a, b)\<close> statement is kept as the format
  string of the source together with the arguments it is applied to; how Python renders
  an argument (the \<^verbatim>\<open>repr\<close> of a list, the digits of a float) is not interpreted.
\<close>

datatype pyval =
    PNone
  | PBool bool
  | PInt int
  | PFloat rat
  | PStr string
  | PList "pyval list"
  | PDict "(string \<times> pyval) list"

datatype arg =
    Str string                \<comment> \<open>a string\<close>
  | StrList "string list"     \<comment> \<open>a list of strings\<close>
  | Count nat                 \<comment> \<open>the result of \<^verbatim>\<open>len\<close>\<close>
  | Num int                   \<comment> \<open>an integer\<close>
  | RoundKB nat               \<comment> \<open>\<^verbatim>\<open>round(n/(1024.0),3)\<close> of a byte count \<open>n\<close>\<close>
  | Seconds int               \<comment> \<open>\<^verbatim>\<open>total_seconds()\<close> of a difference of microseconds\<close>
  | ClockTime int             \<comment> \<open>\<^verbatim>\<open>strftime("%H:%M:%S")\<close> of a time in microseconds\<close>
  | SecondsPer int int        \<comment> \<open>\<^verbatim>\<open>time_elapsed_sec/repeat\<close>\<close>
  | Value pyval               \<comment> \<open>any other Python value\<close>

datatype line =
    Print string                \<comment> \<open>\<^verbatim>\<open>print s\<close>\<close>
  | PrintValue pyval            \<comment> \<open>\<^verbatim>\<open>print v\<close> of a value that is not a string\<close>
  | Format string "arg list"    \<comment> \<open>\<^verbatim>\<open>print fmt.format(args)\<close>\<close>

text \<open>Python's \<^verbatim>\<open>sub in s\<close> on strings: \<open>sub\<close> occurs in \<open>s\<close> as a contiguous substring.\<close>

fun str_contains :: "string \<Rightarrow> string \<Rightarrow> bool" where
  "str_contains sub [] = (sub = [])"
| "str_contains sub (c # cs) = (prefix sub (c # cs) \<or> str_contains sub cs)"

section \<open>GraphDef\<close>

text \<open>
  A GraphDef is a protocol buffer message with a repeated field \<^verbatim>\<open>node\<close>; the notebook
  reads the fields \<^verbatim>\<open>name\<close> and \<^verbatim>\<open>op\<close> of each node and nothing else.
\<close>

record node_def =
  name :: string
  op :: string

record graph_def =
  node :: "node_def list"

section \<open>describe\_graph\<close>

text \<open>
  \<^verbatim>\<open>describe_graph(graph_def, show_nodes=False)\<close> receives the message by reference. The
  model returns the message as it is when the function returns, and the lines printed.
\<close>

definition describe_graph :: "graph_def \<Rightarrow> bool \<Rightarrow> graph_def \<times> line list" where
  "describe_graph graph_def show_nodes =
    (graph_def,
     [Format ''Input Feature Nodes: {}''
        [StrList [name n. n \<leftarrow> node graph_def, op n = ''Placeholder'']],
      Print '''',
      Format ''Unused Nodes: {}''
        [StrList [name n. n \<leftarrow> node graph_def, str_contains ''unused'' (name n)]],
      Print '''',
      Format ''Output Nodes: {}''
        [StrList [name n. n \<leftarrow> node graph_def, str_contains ''predictions'' (name n)]],
      Print '''',
      Format ''Quanitization Nodes: {}''
        [StrList [name n. n \<leftarrow> node graph_def, str_contains ''quant'' (name n)]],
      Print '''',
      Format ''Constant Count: {}''
        [Count (length [n. n \<leftarrow> node graph_def, op n = ''Const''])],
      Print '''',
      Format ''Variable Count: {}''
        [Count (length [n. n \<leftarrow> node graph_def, str_contains ''Variable'' (op n)])],
      Print '''',
      Format ''Identity Count: {}''
        [Count (length [n. n \<leftarrow> node graph_def, op n = ''Identity''])],
      Print '''',
      Format ''Total nodes: {}''
        [Count (length (node graph_def))],
      Print '''']
     @ (if show_nodes = True
        then [Format ''Op:{} - Name: {}''
        [Str (op n), Str (name n)]. n \<leftarrow> node graph_def]
        else []))"

text \<open>The arguments of the first printed line that has the given format string.\<close>

fun reported :: "string \<Rightarrow> line list \<Rightarrow> arg list option" where
  "reported fmt [] = None"
| "reported fmt (Format f as # ls) = (if f = fmt then Some as else reported fmt ls)"
| "reported fmt (l # ls) = reported fmt ls"

section \<open>Exceptions, files and the interpreter state\<close>

datatype error =
    OSError string            \<comment> \<open>\<^verbatim>\<open>os.path.getsize\<close> of a path that is no file\<close>
  | NotFoundError string      \<comment> \<open>reading a file that does not exist\<close>
  | DecodeError               \<comment> \<open>\<^verbatim>\<open>ParseFromString\<close> on bytes that are no GraphDef\<close>
  | KeyError string
  | TypeError
  | IndexError
  | ZeroDivisionError
  | NameError string          \<comment> \<open>a global variable read before it is assigned\<close>
  | LibraryError string       \<comment> \<open>an exception raised inside a library the notebook calls\<close>

text \<open>
  The file system holds regular files, a path with the bytes stored there. A directory
  exists when a file lies below it. Paths are kept in one spelling, the one
  \<^verbatim>\<open>os.path.join\<close> gives the notebook: no trailing slash and no empty path. For the path
  of a directory \<open>os_path_getsize\<close> below fails, where \<^verbatim>\<open>os.path.getsize\<close> reports the size
  of the directory entry, which depends on the file system; the properties of \<open>get_size\<close>
  are about the sizes of regular files only.
\<close>

type_synonym filesystem = "(string \<times> string) list"

text \<open>\<^verbatim>\<open>os.path.join(a, b)\<close> of \<^verbatim>\<open>posixpath\<close>.\<close>

definition os_path_join :: "string \<Rightarrow> string \<Rightarrow> string" where
  "os_path_join a b =
    (if prefix ''/'' b then b
     else if a = [] \<or> last a = CHR ''/'' then a @ b
     else a @ ''/'' @ b)"

definition below :: "string \<Rightarrow> string \<Rightarrow> bool" where
  "below dir p \<longleftrightarrow> p = dir \<or> prefix (dir @ ''/'') p"

text \<open>\<^verbatim>\<open>os.path.exists\<close> and \<^verbatim>\<open>tf.gfile.Exists\<close>.\<close>

definition os_path_exists :: "filesystem \<Rightarrow> string \<Rightarrow> bool" where
  "os_path_exists fs p = list_ex (\<lambda>(q, _). below p q) fs"

definition os_path_getsize :: "filesystem \<Rightarrow> string \<Rightarrow> error + nat" where
  "os_path_getsize fs p =
    (case map_of fs p of None \<Rightarrow> Inl (OSError p) | Some bytes \<Rightarrow> Inr (length bytes))"

text \<open>
  The kinds of statement the notebook's code cells run at top level. A shell cell is
  listed by the commands it runs.
\<close>

datatype statement =
    TrainAndEvaluate string                       \<comment> \<open>\<^verbatim>\<open>run_experiment(hparams, run_config)\<close>\<close>
  | ExportSavedmodel string                       \<comment> \<open>\<^verbatim>\<open>estimator.export_savedmodel(...)\<close>\<close>
  | Echo string
  | SavedModelCliShow string
  | Ls string
  | InferenceTest string string string
  | DescribeSavedModel string
  | GetSize string
  | FreezeGraph string
  | DescribeFile string
  | OptimizeGraph string string "string list"
  | ConvertGraphDefToSavedModel string
  | GsutilRm string
  | GsutilCp string string
  | ModelsCreate string
  | VersionsCreate string string string          \<comment> \<open>version, model, origin\<close>
  | InferenceCmle string

text \<open>
  A call to the clock, the local predictor or the prediction service, or a command of the
  training, the export or the shell that changes files, in order.
\<close>

type_synonym image = "rat list"

datatype event =
    Utcnow int                              \<comment> \<open>\<^verbatim>\<open>datetime.utcnow()\<close> and the microseconds read\<close>
  | FromSavedModel string string            \<comment> \<open>\<^verbatim>\<open>export_dir\<close>, \<^verbatim>\<open>signature_def_key\<close>\<close>
  | Predictor string "image list"           \<comment> \<open>\<^verbatim>\<open>predictor({input_name: rows})\<close>\<close>
  | Execute pyval string                    \<comment> \<open>\<^verbatim>\<open>predict(body=..., name=...).execute()\<close>\<close>
  | Command statement                       \<comment> \<open>training, export, \<^verbatim>\<open>gsutil\<close>, \<^verbatim>\<open>gcloud\<close>\<close>

record world =
  files :: filesystem
  stdout :: "line list"
  calls :: "event list"

text \<open>
  A statement runs in a world and either returns a value or raises; what it printed and
  wrote before raising stays.
\<close>

type_synonym 'a py = "world \<Rightarrow> (error + 'a) \<times> world"

definition ret :: "'a \<Rightarrow> 'a py" where
  "ret x = (\<lambda>w. (Inr x, w))"

definition raise :: "error \<Rightarrow> 'a py" where
  "raise e = (\<lambda>w. (Inl e, w))"

definition bnd :: "'a py \<Rightarrow> ('a \<Rightarrow> 'b py) \<Rightarrow> 'b py" where
  "bnd m f = (\<lambda>w. case m w of (Inl e, w') \<Rightarrow> (Inl e, w') | (Inr x, w') \<Rightarrow> f x w')"

definition lift :: "error + 'a \<Rightarrow> 'a py" where
  "lift r = (case r of Inl e \<Rightarrow> raise e | Inr x \<Rightarrow> ret x)"

definition print :: "line \<Rightarrow> unit py" where
  "print l = (\<lambda>w. (Inr (), w\<lparr>stdout := stdout w @ [l]\<rparr>))"

definition prints :: "line list \<Rightarrow> unit py" where
  "prints ls = (\<lambda>w. (Inr (), w\<lparr>stdout := stdout w @ ls\<rparr>))"

text \<open>\<^verbatim>\<open>for i in range(n): output = body\<close>, with \<open>output\<close> as it was before the loop.\<close>

fun for_range :: "nat \<Rightarrow> 'a py \<Rightarrow> 'a option \<Rightarrow> 'a option py" where
  "for_range 0 body output = ret output"
| "for_range (Suc n) body output = bnd body (\<lambda>v. for_range n body (Some v))"

section \<open>The libraries the notebook calls\<close>

text \<open>
  TensorFlow, the protocol buffer runtime, the clock and the prediction service are not
  part of the notebook. Each call into them is a parameter of the model: the notebook's
  functions are defined for any behaviour of these.
\<close>

record freeze_args =
  input_saved_model_dir :: string
  output_graph :: string
  saved_model_tags :: string
  output_node_names :: string
  initializer_nodes :: string
  input_graph :: "string option"
  input_saver :: bool
  input_binary :: bool
  input_checkpoint :: "string option"
  restore_op_name :: "string option"
  filename_tensor_name :: "string option"
  clear_devices :: bool
  input_meta_graph :: bool

record ('g, 't, 'p) libraries =
  ParseFromString :: "string \<Rightarrow> graph_def option"
  SerializeToString :: "graph_def \<Rightarrow> string"
  MessageToString :: "graph_def \<Rightarrow> string"
  TransformGraph :: "graph_def \<Rightarrow> string list \<Rightarrow> string list \<Rightarrow> string list \<Rightarrow> error + graph_def"
  tools_freeze_graph :: "freeze_args \<Rightarrow> filesystem \<Rightarrow> error + filesystem"
  import_graph_def :: "graph_def \<Rightarrow> error + 'g"
  get_tensor_by_name :: "'g \<Rightarrow> string \<Rightarrow> error + 't"
  simple_save :: "'g \<Rightarrow> string \<Rightarrow> (string \<times> 't) list \<Rightarrow> (string \<times> 't) list
                    \<Rightarrow> filesystem \<Rightarrow> error + filesystem"
  from_saved_model :: "filesystem \<Rightarrow> string \<Rightarrow> string \<Rightarrow> error + 'p"
  run_predictor :: "'p \<Rightarrow> string \<Rightarrow> image list \<Rightarrow> error + (string \<times> pyval list) list"
  utcnow :: "event list \<Rightarrow> int"
  execute :: "pyval \<Rightarrow> string \<Rightarrow> error + pyval"
  eval_data :: "image list"

text \<open>\<^verbatim>\<open>tf.gfile.GFile(path, "rb").read()\<close>.\<close>

definition gfile_read :: "string \<Rightarrow> string py" where
  "gfile_read path =
    (\<lambda>w. case map_of (files w) path of
            None \<Rightarrow> (Inl (NotFoundError path), w)
          | Some bytes \<Rightarrow> (Inr bytes, w))"

text \<open>\<^verbatim>\<open>tf.gfile.DeleteRecursively(dir)\<close> removes the directory and all that lies below it.\<close>

definition delete_tree :: "string \<Rightarrow> filesystem \<Rightarrow> filesystem" where
  "delete_tree dir fs = filter (\<lambda>(q, _). \<not> below dir q) fs"

definition gfile_delete_recursively :: "string \<Rightarrow> unit py" where
  "gfile_delete_recursively dir = (\<lambda>w. (Inr (), w\<lparr>files := delete_tree dir (files w)\<rparr>))"

text \<open>
  \<^verbatim>\<open>tf.train.write_graph(graph_def, logdir, name, as_text)\<close> stores the serialised message
  at \<^verbatim>\<open>os.path.join(logdir, name)\<close> and returns that path.
\<close>

definition write_graph ::
  "('g, 't, 'p) libraries \<Rightarrow> graph_def \<Rightarrow> string \<Rightarrow> bool \<Rightarrow> string \<Rightarrow> string py" where
  "write_graph tf g logdir as_text nm =
    (\<lambda>w. let path = os_path_join logdir nm;
              bytes = (if as_text then MessageToString tf g else SerializeToString tf g)
          in (Inr path, w\<lparr>files := AList.update path bytes (files w)\<rparr>))"

section \<open>get\_size\<close>

definition get_size :: "string \<Rightarrow> unit py" where
  "get_size model_dir =
    bnd (print (Print model_dir)) (\<lambda>_.
    bnd (print (Print '''')) (\<lambda>_.
    bnd (\<lambda>w. lift (os_path_getsize (files w) (os_path_join model_dir ''saved_model.pb'')) w)
      (\<lambda>pb_size.
    bnd (\<lambda>w.
          if os_path_exists (files w)
               (os_path_join model_dir ''variables/variables.data-00000-of-00001'')
          then bnd (lift (os_path_getsize (files w)
                      (os_path_join model_dir ''variables/variables.data-00000-of-00001'')))
                 (\<lambda>variables_size.
               bnd (lift (os_path_getsize (files w)
                      (os_path_join model_dir ''variables/variables.index'')))
                 (\<lambda>index_size. ret (variables_size + index_size))) w
          else ret 0 w)
      (\<lambda>variables_size.
    bnd (print (Format ''Model size: {} KB'' [RoundKB pb_size])) (\<lambda>_.
    bnd (print (Format ''Variables size: {} KB'' [RoundKB variables_size])) (\<lambda>_.
    print (Format ''Total Size: {} KB'' [RoundKB (pb_size + variables_size)])))))))"

section \<open>get\_graph\_def\_from\_file\<close>

text \<open>
  The function prints the path, reads the file and parses it. The default graph it
  enters while doing so is not used by anything it calls.
\<close>

definition get_graph_def_from_file :: "('g, 't, 'p) libraries \<Rightarrow> string \<Rightarrow> graph_def py" where
  "get_graph_def_from_file tf graph_filepath =
    bnd (print (Print graph_filepath)) (\<lambda>_.
    bnd (print (Print '''')) (\<lambda>_.
    bnd (gfile_read graph_filepath) (\<lambda>bytes.
    case ParseFromString tf bytes of
      None \<Rightarrow> raise DecodeError
    | Some graph_def \<Rightarrow> ret graph_def)))"

section \<open>freeze\_graph\<close>

definition freeze_graph :: "('g, 't, 'p) libraries \<Rightarrow> string \<Rightarrow> unit py" where
  "freeze_graph tf saved_model_dir =
    (let output_graph_filename = os_path_join saved_model_dir ''freezed_model.pb'';
         output_node_names = ''head/predictions/ExpandDims'';
         initializer_nodes = ''''
     in
     bnd (\<lambda>w. case tools_freeze_graph tf
                  \<lparr>input_saved_model_dir = saved_model_dir,
                   output_graph = output_graph_filename,
                   saved_model_tags = ''serve'',
                   output_node_names = output_node_names,
                   initializer_nodes = initializer_nodes,
                   input_graph = None,
                   input_saver = False,
                   input_binary = False,
                   input_checkpoint = None,
                   restore_op_name = None,
                   filename_tensor_name = None,
                   clear_devices = False,
                   input_meta_graph = False\<rparr> (files w) of
                Inl e \<Rightarrow> (Inl e, w)
              | Inr fs \<Rightarrow> (Inr (), w\<lparr>files := fs\<rparr>)) (\<lambda>_.
     print (Print ''SavedModel graph freezed!'')))"

section \<open>optimize\_graph\<close>

definition optimize_graph ::
  "('g, 't, 'p) libraries \<Rightarrow> string \<Rightarrow> string \<Rightarrow> string list \<Rightarrow> unit py" where
  "optimize_graph tf model_dir graph_filename transforms =
    (let input_names = [];
         output_names = [''head/predictions/ExpandDims'']
     in
     bnd (get_graph_def_from_file tf (os_path_join model_dir graph_filename)) (\<lambda>graph_def.
     bnd (lift (TransformGraph tf graph_def input_names output_names transforms))
       (\<lambda>optimised_graph_def.
     bnd (write_graph tf optimised_graph_def model_dir False ''optimised_model.pb'') (\<lambda>_.
     print (Print ''Freezed graph optimised!'')))))"

section \<open>convert\_graph\_def\_to\_saved\_model\<close>

text \<open>
  The dictionary comprehension of the \<^verbatim>\<open>inputs\<close> argument: one lookup of the tensor
  \<^verbatim>\<open>"{}:0".format(node.name)\<close> for each node, in order, stored under the node's name.
\<close>

fun placeholder_tensors ::
  "('g, 't, 'p) libraries \<Rightarrow> 'g \<Rightarrow> node_def list \<Rightarrow> (string \<times> 't) list
     \<Rightarrow> error + (string \<times> 't) list" where
  "placeholder_tensors tf graph [] dict = Inr dict"
| "placeholder_tensors tf graph (n # ns) dict =
    (case get_tensor_by_name tf graph (name n @ '':0'') of
       Inl e \<Rightarrow> Inl e
     | Inr t \<Rightarrow> placeholder_tensors tf graph ns (AList.update (name n) t dict))"

text \<open>
  \<open>saved_model_dir\<close> is the notebook's global variable of that name, which the function
  reads; it is not derived from \<open>graph_filepath\<close>. \<open>import_graph_def\<close> stands for opening a
  session on a new graph and importing the GraphDef into it under the empty name prefix;
  the arguments of \<open>simple_save\<close> are evaluated in the order of the source: the inputs
  dictionary, then the outputs dictionary.
\<close>

definition convert_graph_def_to_saved_model ::
  "('g, 't, 'p) libraries \<Rightarrow> string \<Rightarrow> string \<Rightarrow> unit py" where
  "convert_graph_def_to_saved_model tf saved_model_dir graph_filepath =
    (let export_dir = os_path_join saved_model_dir ''optimised'' in
     bnd (\<lambda>w. if os_path_exists (files w) export_dir
               then gfile_delete_recursively export_dir w
               else ret () w) (\<lambda>_.
     bnd (get_graph_def_from_file tf graph_filepath) (\<lambda>graph_def.
     bnd (lift (import_graph_def tf graph_def)) (\<lambda>graph.
     bnd (lift (placeholder_tensors tf graph
                  [n. n \<leftarrow> node graph_def, op n = ''Placeholder''] [])) (\<lambda>inputs.
     bnd (lift (get_tensor_by_name tf graph ''head/predictions/ExpandDims:0'')) (\<lambda>class_ids.
     bnd (\<lambda>w. case simple_save tf graph export_dir inputs [(''class_ids'', class_ids)]
                      (files w) of
                 Inl e \<Rightarrow> (Inl e, w)
               | Inr fs \<Rightarrow> (Inr (), w\<lparr>files := fs\<rparr>)) (\<lambda>_.
     print (Print ''Optimised graph converted to SavedModel!''))))))))"

section \<open>inference\_test\<close>

text \<open>
  Every read of the clock, the loading of the predictor and every call of it is appended
  to the log of calls. The clock is read in microseconds. Setting the logging verbosity
  changes nothing that is modelled and is left out.
\<close>

text \<open>The slice \<^verbatim>\<open>xs[:k]\<close>.\<close>

definition slice_to :: "'a list \<Rightarrow> int \<Rightarrow> 'a list" where
  "slice_to xs k = (if k < 0 then take (nat (int (length xs) + k)) xs else take (nat k) xs)"

definition now :: "('g, 't, 'p) libraries \<Rightarrow> int py" where
  "now tf = (\<lambda>w. let t = utcnow tf (calls w) in (Inr t, w\<lparr>calls := calls w @ [Utcnow t]\<rparr>))"

definition load_predictor :: "('g, 't, 'p) libraries \<Rightarrow> string \<Rightarrow> string \<Rightarrow> 'p py" where
  "load_predictor tf export_dir signature_def_key =
    (\<lambda>w. (from_saved_model tf (files w) export_dir signature_def_key,
           w\<lparr>calls := calls w @ [FromSavedModel export_dir signature_def_key]\<rparr>))"

definition call_predictor ::
  "('g, 't, 'p) libraries \<Rightarrow> 'p \<Rightarrow> string \<Rightarrow> image list \<Rightarrow> (string \<times> pyval list) list py" where
  "call_predictor tf predictor input_name rows =
    (\<lambda>w. (run_predictor tf predictor input_name rows,
           w\<lparr>calls := calls w @ [Predictor input_name rows]\<rparr>))"

definition dict_get :: "(string \<times> 'v) list \<Rightarrow> string \<Rightarrow> error + 'v" where
  "dict_get d k = (case map_of d k of None \<Rightarrow> Inl (KeyError k) | Some v \<Rightarrow> Inr v)"

text \<open>\<^verbatim>\<open>for key in output.keys(): print "{}: {}".format(key, output[key][0])\<close>\<close>

fun print_first_rows :: "(string \<times> pyval list) list \<Rightarrow> unit py" where
  "print_first_rows [] = ret ()"
| "print_first_rows ((key, []) # rest) = raise IndexError"
| "print_first_rows ((key, v # vs) # rest) =
    bnd (print (Format ''{}: {}'' [Str key, Value v])) (\<lambda>_. print_first_rows rest)"

definition inference_test ::
  "('g, 't, 'p) libraries \<Rightarrow> string \<Rightarrow> string \<Rightarrow> string \<Rightarrow> int \<Rightarrow> int \<Rightarrow> unit py" where
  "inference_test tf saved_model_dir signature input_name batch repeat =
    bnd (now tf) (\<lambda>time_start.
    bnd (load_predictor tf saved_model_dir signature) (\<lambda>predictor.
    bnd (now tf) (\<lambda>time_end.
    bnd (prints [Print '''',
                 Format ''Model loading time: {} seconds'' [Seconds (time_end - time_start)],
                 Print '''']) (\<lambda>_.
    bnd (now tf) (\<lambda>time_start.
    bnd (for_range (nat repeat)
           (call_predictor tf predictor input_name (slice_to (eval_data tf) batch)) None)
      (\<lambda>output.
    bnd (now tf) (\<lambda>time_end.
    bnd (prints [Format ''Inference elapsed time: {} seconds''
                   [Seconds (time_end - time_start)],
                 Print '''']) (\<lambda>_.
    bnd (lift (case output of None \<Rightarrow> Inl TypeError | Some out \<Rightarrow> Inr out)) (\<lambda>out.
    bnd (lift (dict_get out ''class_ids'')) (\<lambda>class_ids.
    bnd (print (Format ''Prediction produced for {} instances batch, repeated {} times''
                  [Count (length class_ids), Num repeat])) (\<lambda>_.
    bnd (if repeat = 0 then raise ZeroDivisionError
         else print (Format ''Average latency per batch: {} seconds''
                       [SecondsPer (time_end - time_start) repeat])) (\<lambda>_.
    bnd (prints [Print '''', Print ''Prediction output for the last instance:'']) (\<lambda>_.
    print_first_rows out)))))))))))))"

section \<open>predict and inference\_cmle\<close>

definition PROJECT :: string where
  "PROJECT = ''ksalama-gcp-playground''"

definition BUCKET :: string where
  "BUCKET = ''ksalama-gcs-cloudml''"

definition MODEL_NAME :: string where
  "MODEL_NAME = ''mnist_classifier''"

text \<open>\<^verbatim>\<open>v[k]\<close> with a string key, \<^verbatim>\<open>for item in v\<close>, \<^verbatim>\<open>len(v)\<close> and \<^verbatim>\<open>v[0]\<close>.\<close>

fun getitem :: "pyval \<Rightarrow> string \<Rightarrow> error + pyval" where
  "getitem (PDict d) k = dict_get d k"
| "getitem v k = Inl TypeError"

fun iterate :: "pyval \<Rightarrow> error + pyval list" where
  "iterate (PList xs) = Inr xs"
| "iterate (PDict d) = Inr (map (\<lambda>(k, _). PStr k) d)"
| "iterate (PStr s) = Inr (map (\<lambda>c. PStr [c]) s)"
| "iterate v = Inl TypeError"

fun len :: "pyval \<Rightarrow> error + nat" where
  "len (PList xs) = Inr (length xs)"
| "len (PDict d) = Inr (length d)"
| "len (PStr s) = Inr (length s)"
| "len v = Inl TypeError"

fun first_item :: "pyval \<Rightarrow> error + pyval" where
  "first_item (PList []) = Inl IndexError"
| "first_item (PList (x # xs)) = Inr x"
| "first_item (PStr []) = Inl IndexError"
| "first_item (PStr (c # cs)) = Inr (PStr [c])"
| "first_item (PDict d) = Inl (KeyError ''0'')"
| "first_item v = Inl TypeError"

text \<open>\<^verbatim>\<open>[item["class_ids"] for item in items]\<close>\<close>

fun class_ids_of :: "pyval list \<Rightarrow> error + pyval list" where
  "class_ids_of [] = Inr []"
| "class_ids_of (item # items) =
    (case getitem item ''class_ids'' of
       Inl e \<Rightarrow> Inl e
     | Inr v \<Rightarrow> (case class_ids_of items of Inl e \<Rightarrow> Inl e | Inr vs \<Rightarrow> Inr (v # vs)))"

text \<open>The expression inside \<^verbatim>\<open>try\<close>.\<close>

definition extract_class_ids :: "pyval \<Rightarrow> error + pyval list" where
  "extract_class_ids response =
    (case getitem response ''predictions'' of
       Inl e \<Rightarrow> Inl e
     | Inr predictions \<Rightarrow>
         (case iterate predictions of Inl e \<Rightarrow> Inl e | Inr items \<Rightarrow> class_ids_of items))"

text \<open>\<^verbatim>\<open>'projects/{}/models/{}/versions/{}'.format(PROJECT, MODEL_NAME, version)\<close>\<close>

definition model_url :: "string \<Rightarrow> string" where
  "model_url version =
    ''projects/'' @ PROJECT @ ''/models/'' @ MODEL_NAME @ ''/versions/'' @ version"

definition predict :: "('g, 't, 'p) libraries \<Rightarrow> string \<Rightarrow> pyval \<Rightarrow> pyval py" where
  "predict tf version instances =
    (let request_data = PDict [(''instances'', instances)] in
     bnd (\<lambda>w. (execute tf request_data (model_url version),
                w\<lparr>calls := calls w @ [Execute request_data (model_url version)]\<rparr>))
       (\<lambda>response.
     case extract_class_ids response of
       Inr class_ids \<Rightarrow> ret (PList class_ids)
     | Inl _ \<Rightarrow> bnd (print (PrintValue response)) (\<lambda>_. ret PNone)))"

text \<open>
  \<^verbatim>\<open>{'input_image': [float(i) for i in list(row)]}\<close> for each of the rows. The comprehension
  of the source reads the rows \<^verbatim>\<open>eval_data[img]\<close> for \<^verbatim>\<open>img in range(batch)\<close>, which raises
  when \<^verbatim>\<open>batch\<close> exceeds the number of rows.
\<close>

definition instances_of :: "image list \<Rightarrow> pyval list" where
  "instances_of rows = map (\<lambda>img. PDict [(''input_image'', PList (map PFloat img))]) rows"

definition inference_cmle :: "('g, 't, 'p) libraries \<Rightarrow> string \<Rightarrow> int \<Rightarrow> int \<Rightarrow> unit py" where
  "inference_cmle tf version batch repeat =
    bnd (if nat batch > length (eval_data tf) then raise IndexError
         else ret (instances_of (take (nat batch) (eval_data tf)))) (\<lambda>instances.
    bnd (case instances of
           [] \<Rightarrow> raise IndexError
         | first # _ \<Rightarrow> predict tf version first) (\<lambda>_.
    bnd (prints [Print ''Warm up request performed!'', Print ''Timer started...'', Print ''''])
      (\<lambda>_.
    bnd (now tf) (\<lambda>time_start.
    bnd (for_range (nat repeat) (predict tf version (PList instances)) None) (\<lambda>output.
    bnd (now tf) (\<lambda>time_end.
    bnd (prints [Format ''Inference elapsed time: {} seconds''
                   [Seconds (time_end - time_start)],
                 Print '''']) (\<lambda>_.
    bnd (lift (case output of None \<Rightarrow> Inl TypeError | Some out \<Rightarrow> len out)) (\<lambda>n.
    bnd (print (Format ''Prediction produced for {} instances batch, repeated {} times''
                  [Count n, Num repeat])) (\<lambda>_.
    bnd (if repeat = 0 then raise ZeroDivisionError
         else print (Format ''Average latency per batch: {} seconds''
                       [SecondsPer (time_end - time_start) repeat])) (\<lambda>_.
    bnd (print (Print '''')) (\<lambda>_.
    bnd (lift (case output of None \<Rightarrow> Inl TypeError | Some out \<Rightarrow> first_item out))
      (\<lambda>first.
    print (Format ''Prediction output for the last instance: {}'' [Value first])))))))))))))"

section \<open>The transform list\<close>

definition transforms :: "string list" where
  "transforms =
    [''remove_nodes(op=Identity)'',
     ''fold_constants(ignore_errors=true)'',
     ''fold_batch_norms'',
     ''fuse_resize_pad_and_conv'',
     ''merge_duplicate_nodes'',
     ''strip_unused_nodes'',
     ''sort_by_execution_order'']"

section \<open>The notebook\<close>

text \<open>
  The statements the notebook's code cells run at top level from cell 19 on, in the
  order of the cells (function definitions, imports and assignments of constants left
  out), each with the index of its cell. Shell cells are listed by the commands they run.
  \<open>saved_model_dir\<close> is the directory of the exported model: the Python cells have it from
  cell 27, which reads it from the export directory, and every shell cell finds it by
  listing the export directory itself.
\<close>

definition model_dir :: string where
  "model_dir = os_path_join ''models/mnist'' ''cnn_classifier''"

definition export_dir :: string where
  "export_dir = os_path_join model_dir ''export''"

definition notebook :: "string \<Rightarrow> (nat \<times> statement) list" where
  "notebook saved_model_dir =
    [(19, TrainAndEvaluate model_dir),
     (21, ExportSavedmodel export_dir),
     (23, Echo saved_model_dir),
     (23, Ls saved_model_dir),
     (23, SavedModelCliShow saved_model_dir),
     (27, InferenceTest saved_model_dir ''predict'' ''input_image''),
     (33, DescribeSavedModel saved_model_dir),
     (36, GetSize saved_model_dir),
     (39, FreezeGraph saved_model_dir),
     (40, Echo saved_model_dir),
     (40, Ls saved_model_dir),
     (44, DescribeFile (os_path_join saved_model_dir ''freezed_model.pb'')),
     (48, OptimizeGraph saved_model_dir ''freezed_model.pb'' transforms),
     (49, Echo saved_model_dir),
     (49, Ls saved_model_dir),
     (51, DescribeFile (os_path_join saved_model_dir ''optimised_model.pb'')),
     (54, ConvertGraphDefToSavedModel (os_path_join saved_model_dir ''optimised_model.pb'')),
     (56, GetSize (os_path_join saved_model_dir ''optimised'')),
     (57, Ls (saved_model_dir @ ''/optimised'')),
     (57, SavedModelCliShow (saved_model_dir @ ''/optimised'')),
     (59, InferenceTest (os_path_join saved_model_dir ''optimised'')
            ''serving_default'' ''input_image''),
     (63, GsutilRm (''gs://'' @ BUCKET @ ''/tf-model-optimisation'')),
     (64, Echo saved_model_dir),
     (64, GsutilCp saved_model_dir (''gs://'' @ BUCKET @ ''/tf-model-optimisation/original'')),
     (65, Echo (saved_model_dir @ ''/optimised'')),
     (65, GsutilCp (saved_model_dir @ ''/optimised'')
            (''gs://'' @ BUCKET @ ''/tf-model-optimisation'')),
     (67, Echo MODEL_NAME),
     (67, ModelsCreate MODEL_NAME),
     (69, VersionsCreate ''v_org'' MODEL_NAME
            (''gs://'' @ BUCKET @ ''/tf-model-optimisation/original'')),
     (71, VersionsCreate ''v_opt'' MODEL_NAME
            (''gs://'' @ BUCKET @ ''/tf-model-optimisation/optimised'')),
     (75, InferenceCmle ''v_org''),
     (76, InferenceCmle ''v_opt'')]"

fun transforms_passed :: "statement \<Rightarrow> string list option" where
  "transforms_passed (OptimizeGraph _ _ ts) = Some ts"
| "transforms_passed _ = None"

section \<open>Running the notebook\<close>

text \<open>
  What the notebook runs besides the libraries above: the training and the export of the
  estimator and the \<^verbatim>\<open>gsutil\<close> and \<^verbatim>\<open>gcloud\<close> commands, each with its effect on the files
  (local paths and the objects of the storage bucket); the commands that only print
  (\<^verbatim>\<open>ls\<close>, \<^verbatim>\<open>saved_model_cli show\<close>); the output of \<^verbatim>\<open>ls dir | tail -n 1\<close>, which is empty
  when there is nothing to list; and the SavedModel loader. They are parameters as the
  libraries are. For a Python call the answer \<open>Inl\<close> is the exception it raises. For a
  shell command it is a failure: the shell goes on after a failed command, and the cell
  raises when its last command failed.
\<close>

record tools =
  command :: "statement \<Rightarrow> filesystem \<Rightarrow> error + filesystem"
  inspect :: "statement \<Rightarrow> filesystem \<Rightarrow> error + line list"
  ls_tail :: "string \<Rightarrow> filesystem \<Rightarrow> string"
  loader_load :: "string list \<Rightarrow> string \<Rightarrow> filesystem \<Rightarrow> error + graph_def"

text \<open>A command that changes files is run on the files as they are and is logged.\<close>

definition run_command :: "tools \<Rightarrow> statement \<Rightarrow> unit py" where
  "run_command sh s =
    (\<lambda>w. case command sh s (files w) of
            Inl e \<Rightarrow> (Inl e, w\<lparr>calls := calls w @ [Command s]\<rparr>)
          | Inr fs \<Rightarrow> (Inr (), w\<lparr>files := fs, calls := calls w @ [Command s]\<rparr>))"

definition run_inspect :: "tools \<Rightarrow> statement \<Rightarrow> unit py" where
  "run_inspect sh s =
    (\<lambda>w. case inspect sh s (files w) of
            Inl e \<Rightarrow> (Inl e, w)
          | Inr ls \<Rightarrow> (Inr (), w\<lparr>stdout := stdout w @ ls\<rparr>))"

text \<open>
  \<^verbatim>\<open>os.listdir(dir)\<close>: the names of the entries of the directory, in the order the file
  system gives them (here the order of the files), and an error when there is no such
  directory.
\<close>

definition os_listdir :: "filesystem \<Rightarrow> string \<Rightarrow> error + string list" where
  "os_listdir fs dir =
    (let names = remdups [takeWhile (\<lambda>c. c \<noteq> CHR ''/'') (drop (length dir + 1) q).
                            (q, _) \<leftarrow> fs, prefix (dir @ ''/'') q]
     in if names = [] then Inl (OSError dir) else Inr names)"

text \<open>\<^verbatim>\<open>os.path.join(export_dir, os.listdir(export_dir)[-1])\<close> of cell 27.\<close>

definition last_export :: "string py" where
  "last_export =
    (\<lambda>w. case os_listdir (files w) export_dir of
            Inl e \<Rightarrow> (Inl e, w)
          | Inr [] \<Rightarrow> (Inl IndexError, w)
          | Inr (n # ns) \<Rightarrow> (Inr (os_path_join export_dir (last (n # ns))), w))"

text \<open>
  The directory the shell cells work on:
  \<^verbatim>\<open>saved_model_dir=${saved_models_base}$(ls ${saved_models_base} | tail -n 1)\<close>. The shell cells
  do not see the variable \<^verbatim>\<open>saved_model_dir\<close> of the Python cells; each of them lists the
  export directory again.
\<close>

definition saved_models_base :: string where
  "saved_models_base = ''models/mnist/cnn_classifier/export/''"

definition shell_saved_model_dir :: "tools \<Rightarrow> filesystem \<Rightarrow> string" where
  "shell_saved_model_dir sh fs = saved_models_base @ ls_tail sh saved_models_base fs"

text \<open>\<^verbatim>\<open>if tf.gfile.Exists(dir): tf.gfile.DeleteRecursively(dir)\<close>\<close>

definition delete_if_exists :: "string \<Rightarrow> unit py" where
  "delete_if_exists dir =
    (\<lambda>w. if os_path_exists (files w) dir then gfile_delete_recursively dir w else ret () w)"

text \<open>
  \<^verbatim>\<open>run_experiment(hparams, run_config)\<close> of cell 14: it prints the start time, calls
  \<^verbatim>\<open>tf.estimator.train_and_evaluate\<close> on the estimator it creates, and prints the end time
  and the elapsed seconds. The model directory is the one of \<^verbatim>\<open>run_config\<close>.
\<close>

definition run_experiment :: "('g, 't, 'p) libraries \<Rightarrow> tools \<Rightarrow> string \<Rightarrow> unit py" where
  "run_experiment tf sh dir =
    bnd (now tf) (\<lambda>time_start.
    bnd (prints [Format ''Experiment started at {}'' [ClockTime time_start],
                 Print ''.......................................'']) (\<lambda>_.
    bnd (run_command sh (TrainAndEvaluate dir)) (\<lambda>_.
    bnd (now tf) (\<lambda>time_end.
    prints [Print ''.......................................'',
            Format ''Experiment finished at {}'' [ClockTime time_end],
            Print '''',
            Format ''Experiment elapsed time: {} seconds''
              [Seconds (time_end - time_start)]]))))"

text \<open>\<^verbatim>\<open>get_graph_def_from_saved_model(saved_model_dir)\<close> of cell 32.\<close>

definition get_graph_def_from_saved_model :: "tools \<Rightarrow> string \<Rightarrow> graph_def py" where
  "get_graph_def_from_saved_model sh saved_model_dir =
    bnd (prints [Print saved_model_dir, Print '''']) (\<lambda>_.
    (\<lambda>w. lift (loader_load sh [''serve''] saved_model_dir (files w)) w))"

text \<open>
  What a statement does. \<open>global\<close> is the notebook's global variable \<^verbatim>\<open>saved_model_dir\<close>,
  which has no value before cell 27 assigns it and which
  \<^verbatim>\<open>convert_graph_def_to_saved_model\<close> reads. Cell 19 removes the model directory before it
  trains, cell 21 the export directory before it exports. Cells 27 and 59 print the
  directory they hand to \<^verbatim>\<open>inference_test\<close>. The calls of \<^verbatim>\<open>inference_test\<close> and
  \<^verbatim>\<open>inference_cmle\<close> leave \<^verbatim>\<open>batch\<close> and \<^verbatim>\<open>repeat\<close> at their defaults, the calls of
  \<^verbatim>\<open>describe_graph\<close> leave \<^verbatim>\<open>show_nodes\<close> at its default.
\<close>

fun exec :: "('g, 't, 'p) libraries \<Rightarrow> tools \<Rightarrow> string option \<Rightarrow> statement \<Rightarrow> unit py" where
  "exec tf sh global (TrainAndEvaluate dir) =
    bnd (\<lambda>w. if os_path_exists (files w) dir
              then bnd (print (Print ''Removing previous artifacts...''))
                     (\<lambda>_. gfile_delete_recursively dir) w
              else ret () w) (\<lambda>_.
    run_experiment tf sh dir)"
| "exec tf sh global (ExportSavedmodel dir) =
    bnd (delete_if_exists dir) (\<lambda>_. run_command sh (ExportSavedmodel dir))"
| "exec tf sh global (Echo s) = print (Print s)"
| "exec tf sh global (SavedModelCliShow dir) = run_inspect sh (SavedModelCliShow dir)"
| "exec tf sh global (Ls dir) = run_inspect sh (Ls dir)"
| "exec tf sh global (InferenceTest dir signature input_name) =
    bnd (print (Print dir)) (\<lambda>_. inference_test tf dir signature input_name 300 100)"
| "exec tf sh global (DescribeSavedModel dir) =
    bnd (get_graph_def_from_saved_model sh dir) (\<lambda>graph_def.
    prints (snd (describe_graph graph_def False)))"
| "exec tf sh global (GetSize dir) = get_size dir"
| "exec tf sh global (FreezeGraph dir) = freeze_graph tf dir"
| "exec tf sh global (DescribeFile path) =
    bnd (get_graph_def_from_file tf path) (\<lambda>graph_def.
    prints (snd (describe_graph graph_def False)))"
| "exec tf sh global (OptimizeGraph dir graph_filename ts) =
    optimize_graph tf dir graph_filename ts"
| "exec tf sh global (ConvertGraphDefToSavedModel path) =
    (case global of
       None \<Rightarrow> raise (NameError ''saved_model_dir'')
     | Some saved_model_dir \<Rightarrow> convert_graph_def_to_saved_model tf saved_model_dir path)"
| "exec tf sh global (GsutilRm url) = run_command sh (GsutilRm url)"
| "exec tf sh global (GsutilCp src dst) = run_command sh (GsutilCp src dst)"
| "exec tf sh global (ModelsCreate m) = run_command sh (ModelsCreate m)"
| "exec tf sh global (VersionsCreate v m origin) = run_command sh (VersionsCreate v m origin)"
| "exec tf sh global (InferenceCmle version) = inference_cmle tf version 100 10"

text \<open>
  The statements of a Python cell run one after the other; the first that raises ends
  the cell and the run.
\<close>

fun run_all :: "('a \<Rightarrow> unit py) \<Rightarrow> 'a list \<Rightarrow> unit py" where
  "run_all f [] = ret ()"
| "run_all f (s # ss) = bnd (f s) (\<lambda>_. run_all f ss)"

text \<open>
  The shell goes on after a command that fails: a shell cell ends as its last command
  does.
\<close>

definition attempt :: "unit py \<Rightarrow> unit py" where
  "attempt m = (\<lambda>w. case m w of (Inl e, w') \<Rightarrow> (Inr (), w') | (Inr x, w') \<Rightarrow> (Inr x, w'))"

fun run_script :: "(statement \<Rightarrow> unit py) \<Rightarrow> statement list \<Rightarrow> unit py" where
  "run_script f [] = ret ()"
| "run_script f [s] = f s"
| "run_script f (s # s' # ss) = bnd (attempt (f s)) (\<lambda>_. run_script f (s' # ss))"

text \<open>
  The statements of cell \<open>k\<close>, and the run of the cell. A shell cell works on the directory
  it finds itself, a Python cell on the value of \<^verbatim>\<open>saved_model_dir\<close>.
\<close>

definition cell :: "nat \<Rightarrow> string \<Rightarrow> statement list" where
  "cell k saved_model_dir = [s. (i, s) \<leftarrow> notebook saved_model_dir, i = k]"

definition shell_cells :: "nat list" where
  "shell_cells = [23, 40, 49, 57, 63, 64, 65, 67, 69, 71]"

definition run_shell_cell :: "('g, 't, 'p) libraries \<Rightarrow> tools \<Rightarrow> nat \<Rightarrow> unit py" where
  "run_shell_cell tf sh k =
    (\<lambda>w. run_script (exec tf sh None) (cell k (shell_saved_model_dir sh (files w))) w)"

definition run_python_cell ::
  "('g, 't, 'p) libraries \<Rightarrow> tools \<Rightarrow> string \<Rightarrow> nat \<Rightarrow> unit py" where
  "run_python_cell tf sh saved_model_dir k =
    run_all (exec tf sh (Some saved_model_dir)) (cell k saved_model_dir)"

definition run_cell :: "('g, 't, 'p) libraries \<Rightarrow> tools \<Rightarrow> string \<Rightarrow> nat \<Rightarrow> unit py" where
  "run_cell tf sh saved_model_dir k =
    (if k \<in> set shell_cells then run_shell_cell tf sh k
     else run_python_cell tf sh saved_model_dir k)"

text \<open>
  The notebook from top to bottom. Cells 19 and 21 train and export, before
  \<^verbatim>\<open>saved_model_dir\<close> has a value; the shell cell 23 shows the export. Cell 27 assigns to
  \<^verbatim>\<open>saved_model_dir\<close> the last entry of the export directory, and the cells from there on
  run with it.
\<close>

definition run_notebook :: "('g, 't, 'p) libraries \<Rightarrow> tools \<Rightarrow> unit py" where
  "run_notebook tf sh =
    bnd (exec tf sh None (TrainAndEvaluate model_dir)) (\<lambda>_.
    bnd (exec tf sh None (ExportSavedmodel export_dir)) (\<lambda>_.
    bnd (run_shell_cell tf sh 23) (\<lambda>_.
    bnd last_export (\<lambda>saved_model_dir.
    run_all (run_cell tf sh saved_model_dir)
      [27, 33, 36, 39, 40, 44, 48, 49, 51, 54, 56, 57, 59, 63, 64, 65, 67, 69, 71, 75, 76]))))"

text \<open>A statement that leaves the files as they are, whatever it returns.\<close>

definition keeps_files :: "'a py \<Rightarrow> bool" where
  "keeps_files m \<longleftrightarrow> (\<forall>w. files (snd (m w)) = files w)"

text \<open>The statements that only read, print, time and predict.\<close>

fun quiet :: "statement \<Rightarrow> bool" where
  "quiet (Echo _) = True"
| "quiet (SavedModelCliShow _) = True"
| "quiet (Ls _) = True"
| "quiet (InferenceTest _ _ _) = True"
| "quiet (DescribeSavedModel _) = True"
| "quiet (GetSize _) = True"
| "quiet (DescribeFile _) = True"
| "quiet (InferenceCmle _) = True"
| "quiet _ = False"

text \<open>The cells after cell 23 all of whose statements are of that kind.\<close>

definition quiet_cells :: "nat list" where
  "quiet_cells = [27, 33, 36, 40, 44, 49, 51, 56, 57, 59, 75, 76]"

section \<open>A small instance\<close>

text \<open>
  One behaviour of the libraries and one state of the file system, small enough to run
  the notebook's functions on: a frozen graph of four nodes, a transform that drops the
  \<open>Identity\<close> nodes, a predictor that answers class 7 for every row, a clock that advances
  by a millisecond with every call, and a prediction service that knows the version
  \<open>v_opt\<close> only.
\<close>

definition example_graph :: graph_def where
  "example_graph =
    \<lparr>node =
      [\<lparr>name = ''input_image'', op = ''Placeholder''\<rparr>,
       \<lparr>name = ''dense/kernel'', op = ''Const''\<rparr>,
       \<lparr>name = ''dense/kernel/read'', op = ''Identity''\<rparr>,
       \<lparr>name = ''head/predictions/ExpandDims'', op = ''ExpandDims''\<rparr>]\<rparr>"

definition example_bytes :: "graph_def \<Rightarrow> string" where
  "example_bytes g = concat (map (\<lambda>n. name n @ '':'' @ op n @ '';'') (node g))"

definition example_tf :: "(graph_def, string, unit) libraries" where
  "example_tf =
    \<lparr>ParseFromString =
       (\<lambda>bytes. if bytes = example_bytes example_graph then Some example_graph else None),
     SerializeToString = example_bytes,
     MessageToString = example_bytes,
     TransformGraph =
       (\<lambda>g input_names output_names ts.
          Inr (g\<lparr>node := filter (\<lambda>n. op n \<noteq> ''Identity'') (node g)\<rparr>)),
     tools_freeze_graph =
       (\<lambda>args fs. Inr (AList.update (output_graph args) (example_bytes example_graph) fs)),
     import_graph_def = (\<lambda>g. Inr g),
     get_tensor_by_name =
       (\<lambda>g tensor. if tensor \<in> set (map (\<lambda>n. name n @ '':0'') (node g))
                   then Inr tensor else Inl (KeyError tensor)),
     simple_save =
       (\<lambda>g dir ins outs fs.
          Inr (AList.update (os_path_join dir ''saved_model.pb'') ''saved_model'' fs)),
     from_saved_model = (\<lambda>fs dir key. Inr ()),
     run_predictor = (\<lambda>p input_name rows. Inr [(''class_ids'', map (\<lambda>r. PInt 7) rows)]),
     utcnow = (\<lambda>history. 1000 * int (length history)),
     execute =
       (\<lambda>body url.
          if url = model_url ''v_opt''
          then Inr (PDict [(''predictions'', PList [PDict [(''class_ids'', PInt 7)]])])
          else Inr (PDict [(''error'', PStr ''Version not found'')])),
     eval_data = [[0, 1 / 2], [1, 0]]\<rparr>"

definition example_world :: world where
  "example_world =
    \<lparr>files =
       [(''m/saved_model.pb'', ''0123456789''),
        (''m/variables/variables.data-00000-of-00001'', ''01234''),
        (''m/variables/variables.index'', ''012''),
        (''m/freezed_model.pb'', example_bytes example_graph),
        (''m/optimised/saved_model.pb'', ''stale'')],
     stdout = [],
     calls = []\<rparr>"

text \<open>
  A second instance, on which the whole notebook runs: the parser knows the frozen graph,
  the optimised graph and a graph without the output node; there are a hundred rows of
  evaluation data; the service knows both versions. Training writes a checkpoint, the
  export writes one SavedModel directory, \<^verbatim>\<open>ls\<close> lists as \<open>os_listdir\<close> does, \<^verbatim>\<open>gsutil cp\<close>
  copies the file \<open>saved_model.pb\<close> of its source to its destination and the other commands
  change no file.
\<close>

definition optimised_graph :: graph_def where
  "optimised_graph =
    \<lparr>node =
      [\<lparr>name = ''input_image'', op = ''Placeholder''\<rparr>,
       \<lparr>name = ''dense/kernel'', op = ''Const''\<rparr>,
       \<lparr>name = ''head/predictions/ExpandDims'', op = ''ExpandDims''\<rparr>]\<rparr>"

definition headless_graph :: graph_def where
  "headless_graph =
    \<lparr>node =
      [\<lparr>name = ''input_image'', op = ''Placeholder''\<rparr>,
       \<lparr>name = ''dense/kernel'', op = ''Const''\<rparr>]\<rparr>"

definition notebook_tf :: "(graph_def, string, unit) libraries" where
  "notebook_tf =
    example_tf
      \<lparr>ParseFromString :=
         (\<lambda>bytes. List.find (\<lambda>g. example_bytes g = bytes)
                     [example_graph, optimised_graph, headless_graph]),
       execute :=
         (\<lambda>body url. Inr (PDict [(''predictions'', PList [PDict [(''class_ids'', PInt 7)]])])),
       eval_data := replicate 100 [0, 1 / 2]\<rparr>"

definition notebook_sh :: tools where
  "notebook_sh =
    \<lparr>command =
       (\<lambda>s fs. case s of
          TrainAndEvaluate dir \<Rightarrow>
            Inr (AList.update (os_path_join dir ''model.ckpt'') ''weights'' fs)
        | ExportSavedmodel dir \<Rightarrow>
            Inr (AList.update (os_path_join dir ''1538687457/saved_model.pb'') ''graph'' fs)
        | GsutilCp src dst \<Rightarrow>
            (case map_of fs (os_path_join src ''saved_model.pb'') of
               None \<Rightarrow> Inl (LibraryError ''gsutil'')
             | Some bytes \<Rightarrow> Inr (AList.update (os_path_join dst ''saved_model.pb'') bytes fs))
        | _ \<Rightarrow> Inr fs),
     inspect = (\<lambda>s fs. Inr []),
     ls_tail =
       (\<lambda>dir fs. case os_listdir fs (butlast dir) of Inl e \<Rightarrow> [] | Inr names \<Rightarrow> last names),
     loader_load = (\<lambda>tags dir fs. Inr example_graph)\<rparr>"

definition empty_world :: world where
  "empty_world = \<lparr>files = [], stdout = [], calls = []\<rparr>"


section \<open>Properties\<close>

lemma str_contains_iff: "str_contains sub s \<longleftrightarrow> (\<exists>ps ss. s = ps @ sub @ ss)"
proof (induction s)
  case Nil
  then show ?case by auto
next
  case (Cons c cs)
  have "(\<exists>ps ss. c # cs = ps @ sub @ ss) \<longleftrightarrow> sublist sub (c # cs)"
    by (simp add: sublist_def)
  also have "\<dots> \<longleftrightarrow> prefix sub (c # cs) \<or> sublist sub cs"
    by (rule sublist_Cons_right)
  also have "\<dots> \<longleftrightarrow> prefix sub (c # cs) \<or> str_contains sub cs"
    using Cons.IH by (simp add: sublist_def)
  finally show ?case by simp
qed

lemma comprehension_filter:
  "concat (map (\<lambda>x. if P x then [f x] else []) xs) = map f (filter P xs)"
  by (induction xs) simp_all

subsection \<open>Running statements\<close>

lemma bnd_ret [simp]: "bnd (ret x) f = f x"
  by (simp add: bnd_def ret_def)

lemma bnd_raise [simp]: "bnd (raise e) f = raise e"
  by (simp add: bnd_def raise_def)

lemma lift_Inr [simp]: "lift (Inr x) = ret x"
  by (simp add: lift_def)

lemma lift_Inl [simp]: "lift (Inl e) = raise e"
  by (simp add: lift_def)

lemma ret_apply: "ret x w = (Inr x, w)"
  by (simp add: ret_def)

lemma raise_apply: "raise e w = (Inl e, w)"
  by (simp add: raise_def)

lemma print_apply: "print l w = (Inr (), w\<lparr>stdout := stdout w @ [l]\<rparr>)"
  by (simp add: print_def)

lemma prints_apply: "prints ls w = (Inr (), w\<lparr>stdout := stdout w @ ls\<rparr>)"
  by (simp add: prints_def)

lemma bnd_apply: "bnd m f w = (case m w of (Inl e, w') \<Rightarrow> (Inl e, w') | (Inr x, w') \<Rightarrow> f x w')"
  by (simp add: bnd_def)

lemma now_apply:
  "now tf w = (Inr (utcnow tf (calls w)), w\<lparr>calls := calls w @ [Utcnow (utcnow tf (calls w))]\<rparr>)"
  by (simp add: now_def Let_def)

lemma get_graph_def_from_file_apply:
  "get_graph_def_from_file tf path w =
    (case map_of (files w) path of
       None \<Rightarrow> (Inl (NotFoundError path), w\<lparr>stdout := stdout w @ [Print path, Print '''']\<rparr>)
     | Some bytes \<Rightarrow>
         (case ParseFromString tf bytes of
            None \<Rightarrow> (Inl DecodeError, w\<lparr>stdout := stdout w @ [Print path, Print '''']\<rparr>)
          | Some g \<Rightarrow> (Inr g, w\<lparr>stdout := stdout w @ [Print path, Print '''']\<rparr>)))"
  by (simp add: get_graph_def_from_file_def gfile_read_def bnd_apply raise_def ret_def
      print_def split: option.splits)

lemma for_range_log:
  assumes "\<And>w. body w = (Inr v, w\<lparr>calls := calls w @ [ev]\<rparr>)"
  shows "for_range n body acc w =
          (Inr (if n = 0 then acc else Some v), w\<lparr>calls := calls w @ replicate n ev\<rparr>)"
proof (induction n arbitrary: acc w)
  case 0
  then show ?case by (simp add: ret_def)
next
  case (Suc n)
  have "for_range (Suc n) body acc w
      = for_range n body (Some v) (w\<lparr>calls := calls w @ [ev]\<rparr>)"
    by (simp add: bnd_apply assms [of w])
  also have "\<dots> = (Inr (Some v), w\<lparr>calls := calls w @ replicate (Suc n) ev\<rparr>)"
    by (simp add: Suc.IH)
  finally show ?case by simp
qed

lemma reported_append:
  "reported fmt (xs @ ys) =
    (case reported fmt xs of None \<Rightarrow> reported fmt ys | Some as \<Rightarrow> Some as)"
  by (induction fmt xs rule: reported.induct) simp_all

subsection \<open>describe\_graph\<close>

text \<open>
  C5. \<open>describe_graph\<close> only prints. For every GraphDef the line of input feature nodes
  lists the names of the nodes whose op is \<open>Placeholder\<close>, the line of unused nodes the names
  that contain \<open>unused\<close>, the line of output nodes the names that contain \<open>predictions\<close>; the
  constant count is the number of nodes with op \<open>Const\<close>, the variable count the number of
  nodes whose op contains \<open>Variable\<close>, the identity count the number of nodes with op
  \<open>Identity\<close>, and the total the number of nodes. The graph is the same after the call.
\<close>

theorem describe_graph_reports:
  "fst (describe_graph g show_nodes) = g \<and>
   reported ''Input Feature Nodes: {}'' (snd (describe_graph g show_nodes))
     = Some [StrList (map name (filter (\<lambda>n. op n = ''Placeholder'') (node g)))] \<and>
   reported ''Unused Nodes: {}'' (snd (describe_graph g show_nodes))
     = Some [StrList (map name (filter (\<lambda>n. \<exists>ps ss. name n = ps @ ''unused'' @ ss) (node g)))] \<and>
   reported ''Output Nodes: {}'' (snd (describe_graph g show_nodes))
     = Some [StrList (map name
               (filter (\<lambda>n. \<exists>ps ss. name n = ps @ ''predictions'' @ ss) (node g)))] \<and>
   reported ''Constant Count: {}'' (snd (describe_graph g show_nodes))
     = Some [Count (length (filter (\<lambda>n. op n = ''Const'') (node g)))] \<and>
   reported ''Variable Count: {}'' (snd (describe_graph g show_nodes))
     = Some [Count (length (filter (\<lambda>n. \<exists>ps ss. op n = ps @ ''Variable'' @ ss) (node g)))] \<and>
   reported ''Identity Count: {}'' (snd (describe_graph g show_nodes))
     = Some [Count (length (filter (\<lambda>n. op n = ''Identity'') (node g)))] \<and>
   reported ''Total nodes: {}'' (snd (describe_graph g show_nodes))
     = Some [Count (length (node g))]"
  unfolding describe_graph_def
  by (simp add: comprehension_filter [where f = "\<lambda>x. x", simplified] comprehension_filter
        str_contains_iff)

text \<open>The report on the frozen graph of the small instance.\<close>

lemma describe_graph_example:
  "describe_graph example_graph False =
    (example_graph,
     [Format ''Input Feature Nodes: {}'' [StrList [''input_image'']], Print '''',
      Format ''Unused Nodes: {}'' [StrList []], Print '''',
      Format ''Output Nodes: {}'' [StrList [''head/predictions/ExpandDims'']], Print '''',
      Format ''Quanitization Nodes: {}'' [StrList []], Print '''',
      Format ''Constant Count: {}'' [Count 1], Print '''',
      Format ''Variable Count: {}'' [Count 0], Print '''',
      Format ''Identity Count: {}'' [Count 1], Print '''',
      Format ''Total nodes: {}'' [Count 4], Print ''''])"
  by (simp add: describe_graph_def example_graph_def)

subsection \<open>The notebook\<close>

text \<open>
  C4. The notebook calls \<open>optimize_graph\<close> once, with the list of seven transforms below.
  Neither \<open>quantize_weights\<close> nor \<open>quantize_nodes\<close> is in the list, and no entry of it
  names a quantisation transform.
\<close>

theorem transforms_without_quantization:
  "List.map_filter transforms_passed (map snd (notebook d)) = [transforms] \<and>
   transforms =
     [''remove_nodes(op=Identity)'', ''fold_constants(ignore_errors=true)'',
      ''fold_batch_norms'', ''fuse_resize_pad_and_conv'', ''merge_duplicate_nodes'',
      ''strip_unused_nodes'', ''sort_by_execution_order''] \<and>
   ''quantize_weights'' \<notin> set transforms \<and>
   ''quantize_nodes'' \<notin> set transforms \<and>
   \<not> list_ex (str_contains ''quantize'') transforms"
  by (simp add: notebook_def transforms_def)

subsection \<open>get\_size\<close>

text \<open>
  C6. For a model directory that holds \<open>saved_model.pb\<close>, and holds the variables index
  whenever it holds the variables data file, \<open>get_size\<close> returns and reports as total the
  size of \<open>saved_model.pb\<close> plus the variables size: the sum of the sizes of the data file
  and of the index when the data file exists, and 0 when it does not. It writes no file.
\<close>

theorem get_size_total:
  assumes "os_path_getsize (files w) (os_path_join d ''saved_model.pb'') = Inr pb_size"
    and "os_path_exists (files w) (os_path_join d ''variables/variables.data-00000-of-00001'')
          \<Longrightarrow> os_path_getsize (files w)
                (os_path_join d ''variables/variables.data-00000-of-00001'') = Inr data_size
              \<and> os_path_getsize (files w)
                (os_path_join d ''variables/variables.index'') = Inr index_size"
  shows "get_size d w =
          (Inr (),
           w\<lparr>stdout := stdout w @
              [Print d, Print '''',
               Format ''Model size: {} KB'' [RoundKB pb_size],
               Format ''Variables size: {} KB''
                 [RoundKB (if os_path_exists (files w)
                              (os_path_join d ''variables/variables.data-00000-of-00001'')
                           then data_size + index_size else 0)],
               Format ''Total Size: {} KB''
                 [RoundKB (pb_size +
                    (if os_path_exists (files w)
                          (os_path_join d ''variables/variables.data-00000-of-00001'')
                     then data_size + index_size else 0))]]\<rparr>)"
  using assms
  by (simp add: get_size_def bnd_apply ret_apply print_apply)

theorem get_size_total_witness:
  "get_size ''m'' example_world =
    (Inr (),
     example_world\<lparr>stdout :=
       [Print ''m'', Print '''',
        Format ''Model size: {} KB'' [RoundKB 10],
        Format ''Variables size: {} KB'' [RoundKB 8],
        Format ''Total Size: {} KB'' [RoundKB 18]]\<rparr>) \<and>
   get_size ''m/optimised'' example_world =
    (Inr (),
     example_world\<lparr>stdout :=
       [Print ''m/optimised'', Print '''',
        Format ''Model size: {} KB'' [RoundKB 5],
        Format ''Variables size: {} KB'' [RoundKB 0],
        Format ''Total Size: {} KB'' [RoundKB 5]]\<rparr>)"
proof -
  have pb: "os_path_getsize (files example_world) (os_path_join ''m'' ''saved_model.pb'')
      = Inr 10"
    by (simp add: example_world_def os_path_getsize_def os_path_join_def)
  have ex: "os_path_exists (files example_world)
      (os_path_join ''m'' ''variables/variables.data-00000-of-00001'')"
    by (simp add: example_world_def os_path_exists_def os_path_join_def below_def)
  have vs: "os_path_getsize (files example_world)
        (os_path_join ''m'' ''variables/variables.data-00000-of-00001'') = Inr 5 \<and>
      os_path_getsize (files example_world)
        (os_path_join ''m'' ''variables/variables.index'') = Inr 3"
    by (simp add: example_world_def os_path_getsize_def os_path_join_def)
  have pb': "os_path_getsize (files example_world)
      (os_path_join ''m/optimised'' ''saved_model.pb'') = Inr 5"
    by (simp add: example_world_def os_path_getsize_def os_path_join_def)
  have nex: "\<not> os_path_exists (files example_world)
      (os_path_join ''m/optimised'' ''variables/variables.data-00000-of-00001'')"
    by (simp add: example_world_def os_path_exists_def os_path_join_def below_def)
  from get_size_total [OF pb vs] ex
  have a: "get_size ''m'' example_world =
    (Inr (),
     example_world\<lparr>stdout :=
       [Print ''m'', Print '''',
        Format ''Model size: {} KB'' [RoundKB 10],
        Format ''Variables size: {} KB'' [RoundKB 8],
        Format ''Total Size: {} KB'' [RoundKB 18]]\<rparr>)"
    by (simp add: example_world_def)
  from get_size_total [OF pb', of 0 0] nex
  have b: "get_size ''m/optimised'' example_world =
    (Inr (),
     example_world\<lparr>stdout :=
       [Print ''m/optimised'', Print '''',
        Format ''Model size: {} KB'' [RoundKB 5],
        Format ''Variables size: {} KB'' [RoundKB 0],
        Format ''Total Size: {} KB'' [RoundKB 5]]\<rparr>)"
    by (simp add: example_world_def)
  from a b show ?thesis by simp
qed

subsection \<open>freeze\_graph and reading a written graph back\<close>

text \<open>
  \<open>freeze_graph\<close> hands the tool the directory, the path of \<open>freezed_model.pb\<close> below it
  and the output node; the files afterwards are the files the tool leaves.
\<close>

lemma freeze_graph_apply:
  "freeze_graph tf d w =
    (case tools_freeze_graph tf
            \<lparr>input_saved_model_dir = d,
             output_graph = os_path_join d ''freezed_model.pb'',
             saved_model_tags = ''serve'',
             output_node_names = ''head/predictions/ExpandDims'',
             initializer_nodes = '''',
             input_graph = None,
             input_saver = False,
             input_binary = False,
             input_checkpoint = None,
             restore_op_name = None,
             filename_tensor_name = None,
             clear_devices = False,
             input_meta_graph = False\<rparr> (files w) of
       Inl e \<Rightarrow> (Inl e, w)
     | Inr fs \<Rightarrow>
         (Inr (), w\<lparr>files := fs, stdout := stdout w @ [Print ''SavedModel graph freezed!'']\<rparr>))"
  by (simp add: freeze_graph_def Let_def bnd_apply print_apply split: sum.splits)

text \<open>
  Reading back the file that \<open>write_graph\<close> wrote in binary form parses the bytes the
  serialiser produced: what comes back is what the parser makes of them.
\<close>

lemma write_graph_then_read:
  assumes "write_graph tf g logdir False nm w = (Inr path, w')"
  shows "fst (get_graph_def_from_file tf path w') =
          (case ParseFromString tf (SerializeToString tf g) of
             None \<Rightarrow> Inl DecodeError
           | Some g' \<Rightarrow> Inr g')"
  using assms
  by (auto simp: write_graph_def Let_def get_graph_def_from_file_apply update_conv'
      split: option.splits)

subsection \<open>optimize\_graph\<close>

lemma join_freezed_neq_optimised:
  "os_path_join d ''freezed_model.pb'' \<noteq> os_path_join d ''optimised_model.pb''"
  by (simp add: os_path_join_def)

text \<open>
  C3. \<open>optimize_graph\<close> rewrites nothing itself. For every model directory, graph file
  name, transform list and state: whatever the outcome, every file other than
  \<open>optimised_model.pb\<close> of the model directory is as before, \<open>freezed_model.pb\<close> of the
  model directory among them; it returns exactly when the graph file can be read and
  parsed and \<open>TransformGraph\<close>, called on the parsed graph with no input names, the output
  name \<open>head/predictions/ExpandDims\<close> and the given transforms, returns a graph; and then
  \<open>optimised_model.pb\<close> holds the serialised graph that \<open>TransformGraph\<close> returned.
\<close>

theorem optimize_graph_effect:
  "(\<forall>p. p \<noteq> os_path_join d ''optimised_model.pb'' \<longrightarrow>
        map_of (files (snd (optimize_graph tf d graph_filename ts w))) p
          = map_of (files w) p) \<and>
   map_of (files (snd (optimize_graph tf d graph_filename ts w)))
       (os_path_join d ''freezed_model.pb'')
     = map_of (files w) (os_path_join d ''freezed_model.pb'') \<and>
   (\<forall>bytes g g'.
      map_of (files w) (os_path_join d graph_filename) = Some bytes \<and>
      ParseFromString tf bytes = Some g \<and>
      TransformGraph tf g [] [''head/predictions/ExpandDims''] ts = Inr g' \<longrightarrow>
      optimize_graph tf d graph_filename ts w =
        (Inr (),
         w\<lparr>files := AList.update (os_path_join d ''optimised_model.pb'')
                      (SerializeToString tf g') (files w),
           stdout := stdout w @
             [Print (os_path_join d graph_filename), Print '''',
              Print ''Freezed graph optimised!'']\<rparr>)) \<and>
   (fst (optimize_graph tf d graph_filename ts w) = Inr () \<longrightarrow>
      (\<exists>bytes g g'.
        map_of (files w) (os_path_join d graph_filename) = Some bytes \<and>
        ParseFromString tf bytes = Some g \<and>
        TransformGraph tf g [] [''head/predictions/ExpandDims''] ts = Inr g'))"
proof -
  let ?out = "os_path_join d ''optimised_model.pb''"
  let ?r = "optimize_graph tf d graph_filename ts w"
  have frame: "map_of (files (snd ?r)) p = map_of (files w) p" if "p \<noteq> ?out" for p
    using that
    by (simp add: optimize_graph_def bnd_apply get_graph_def_from_file_apply write_graph_def
          raise_def ret_def lift_def print_def update_conv' Let_def
        split: option.splits sum.splits)
  have succ: "?r =
        (Inr (),
         w\<lparr>files := AList.update ?out (SerializeToString tf g') (files w),
           stdout := stdout w @
             [Print (os_path_join d graph_filename), Print '''',
              Print ''Freezed graph optimised!'']\<rparr>)"
    if "map_of (files w) (os_path_join d graph_filename) = Some bytes"
      "ParseFromString tf bytes = Some g"
      "TransformGraph tf g [] [''head/predictions/ExpandDims''] ts = Inr g'"
    for bytes g g'
    using that
    by (simp add: optimize_graph_def bnd_apply get_graph_def_from_file_apply write_graph_def
          ret_def print_def Let_def)
  have conv: "\<exists>bytes g g'.
        map_of (files w) (os_path_join d graph_filename) = Some bytes \<and>
        ParseFromString tf bytes = Some g \<and>
        TransformGraph tf g [] [''head/predictions/ExpandDims''] ts = Inr g'"
    if "fst ?r = Inr ()"
    using that
    by (simp add: optimize_graph_def bnd_apply get_graph_def_from_file_apply write_graph_def
          raise_def ret_def lift_def print_def Let_def
        split: option.splits sum.splits)
  show ?thesis
    using frame [of "os_path_join d ''freezed_model.pb''"]
      join_freezed_neq_optimised [of d] frame succ conv
    by blast
qed

theorem optimize_graph_effect_witness:
  "optimize_graph example_tf ''m'' ''freezed_model.pb'' transforms example_world =
     (Inr (),
      example_world
        \<lparr>files := files example_world @
           [(''m/optimised_model.pb'',
             ''input_image:Placeholder;dense/kernel:Const;head/predictions/ExpandDims:ExpandDims;'')],
         stdout := [Print ''m/freezed_model.pb'', Print '''', Print ''Freezed graph optimised!'']\<rparr>) \<and>
   map_of (files (snd (optimize_graph example_tf ''m'' ''freezed_model.pb'' transforms
                         example_world))) ''m/freezed_model.pb''
     = Some ''input_image:Placeholder;dense/kernel:Const;dense/kernel/read:Identity;head/predictions/ExpandDims:ExpandDims;''"
proof -
  let ?g' = "example_graph\<lparr>node := filter (\<lambda>n. op n \<noteq> ''Identity'') (node example_graph)\<rparr>"
  have r: "map_of (files example_world) (os_path_join ''m'' ''freezed_model.pb'')
      = Some (example_bytes example_graph)"
    by (simp add: example_world_def os_path_join_def)
  have p: "ParseFromString example_tf (example_bytes example_graph) = Some example_graph"
    by (simp add: example_tf_def)
  have t: "TransformGraph example_tf example_graph [] [''head/predictions/ExpandDims'']
      transforms = Inr ?g'"
    by (simp add: example_tf_def)
  from optimize_graph_effect [of "''m''" example_tf "''freezed_model.pb''" transforms
      example_world] r p t
  have run: "optimize_graph example_tf ''m'' ''freezed_model.pb'' transforms example_world =
        (Inr (),
         example_world\<lparr>files := AList.update (os_path_join ''m'' ''optimised_model.pb'')
                      (SerializeToString example_tf ?g') (files example_world),
           stdout := stdout example_world @
             [Print (os_path_join ''m'' ''freezed_model.pb''), Print '''',
              Print ''Freezed graph optimised!'']\<rparr>)"
    by blast
  show ?thesis
    unfolding run
    by (simp add: example_world_def example_tf_def example_bytes_def example_graph_def
        os_path_join_def)
qed

subsection \<open>convert\_graph\_def\_to\_saved\_model\<close>


lemma map_of_delete_tree: "\<not> below d p \<Longrightarrow> map_of (delete_tree d fs) p = map_of fs p"
  by (induction fs) (auto simp: delete_tree_def)

lemma delete_tree_absent: "\<not> os_path_exists fs d \<Longrightarrow> delete_tree d fs = fs"
  by (induction fs) (auto simp: os_path_exists_def delete_tree_def)







subsection \<open>predict\<close>

lemma class_ids_of_items:
  "list_all2 (\<lambda>item c. \<exists>d. item = PDict d \<and> map_of d ''class_ids'' = Some c) items cs
    \<Longrightarrow> class_ids_of items = Inr cs"
  by (induction rule: list_all2_induct) (auto simp: dict_get_def)

lemma predict_apply:
  assumes "execute tf (PDict [(''instances'', instances)]) (model_url version) = Inr response"
  shows "predict tf version instances w =
      (Inr (case extract_class_ids response of Inr ids \<Rightarrow> PList ids | Inl e \<Rightarrow> PNone),
       w\<lparr>calls := calls w @ [Execute (PDict [(''instances'', instances)]) (model_url version)],
         stdout := stdout w @
           (case extract_class_ids response of Inr ids \<Rightarrow> [] | Inl e \<Rightarrow> [PrintValue response])\<rparr>)"
  using assms
  by (cases "extract_class_ids response")
     (simp_all add: predict_def Let_def bnd_apply ret_apply print_apply)

text \<open>
  C9. Whatever the prediction service answers, \<open>predict\<close> returns. It returns the list
  of the \<open>class_ids\<close> when the expression inside \<^verbatim>\<open>try\<close> evaluates, and then prints nothing;
  it returns \<open>None\<close> after printing the response when that expression raises. The expression
  evaluates to the \<open>class_ids\<close> of the items, in order, when the response has a list
  \<open>predictions\<close> of dictionaries that each have \<open>class_ids\<close>, and raises when the response
  has no key \<open>predictions\<close>.
\<close>

theorem predict_on_response:
  assumes "execute tf (PDict [(''instances'', instances)]) (model_url version) = Inr response"
  shows "(\<exists>out.
      predict tf version instances w =
        (Inr out,
         w\<lparr>calls := calls w @
             [Execute (PDict [(''instances'', instances)]) (model_url version)],
           stdout := stdout w @ (if out = PNone then [PrintValue response] else [])\<rparr>) \<and>
      (case extract_class_ids response of
         Inr class_ids \<Rightarrow> out = PList class_ids
       | Inl e \<Rightarrow> out = PNone)) \<and>
    (\<forall>d items cs.
       response = PDict d \<and> map_of d ''predictions'' = Some (PList items) \<and>
       list_all2 (\<lambda>item c. \<exists>di. item = PDict di \<and> map_of di ''class_ids'' = Some c) items cs
       \<longrightarrow> extract_class_ids response = Inr cs) \<and>
    (\<forall>d. response = PDict d \<and> map_of d ''predictions'' = None
       \<longrightarrow> extract_class_ids response = Inl (KeyError ''predictions''))"
proof -
  have a: "\<exists>out.
      predict tf version instances w =
        (Inr out,
         w\<lparr>calls := calls w @
             [Execute (PDict [(''instances'', instances)]) (model_url version)],
           stdout := stdout w @ (if out = PNone then [PrintValue response] else [])\<rparr>) \<and>
      (case extract_class_ids response of
         Inr class_ids \<Rightarrow> out = PList class_ids
       | Inl e \<Rightarrow> out = PNone)"
    using predict_apply [OF assms, of w]
    by (cases "extract_class_ids response") simp_all
  have b: "extract_class_ids response = Inr cs"
    if "response = PDict d" "map_of d ''predictions'' = Some (PList items)"
      "list_all2 (\<lambda>item c. \<exists>di. item = PDict di \<and> map_of di ''class_ids'' = Some c) items cs"
    for d items cs
    using that by (simp add: extract_class_ids_def dict_get_def class_ids_of_items)
  have c: "extract_class_ids response = Inl (KeyError ''predictions'')"
    if "response = PDict d" "map_of d ''predictions'' = None" for d
    using that by (simp add: extract_class_ids_def dict_get_def)
  show ?thesis using a b c by blast
qed

theorem predict_on_response_witness:
  "predict example_tf ''v_opt'' (PList []) example_world =
     (Inr (PList [PInt 7]),
      example_world\<lparr>calls := [Execute (PDict [(''instances'', PList [])])
                                  (model_url ''v_opt'')]\<rparr>) \<and>
   predict example_tf ''v_org'' (PList []) example_world =
     (Inr PNone,
      example_world
        \<lparr>calls := [Execute (PDict [(''instances'', PList [])]) (model_url ''v_org'')],
          stdout := [PrintValue (PDict [(''error'', PStr ''Version not found'')])]\<rparr>)"
proof -
  let ?good = "PDict [(''predictions'', PList [PDict [(''class_ids'', PInt 7)]])]"
  let ?bad = "PDict [(''error'', PStr ''Version not found'')]"
  have e1: "execute example_tf (PDict [(''instances'', PList [])]) (model_url ''v_opt'')
      = Inr ?good"
    by (simp add: example_tf_def)
  have e2: "execute example_tf (PDict [(''instances'', PList [])]) (model_url ''v_org'')
      = Inr ?bad"
    by (simp add: example_tf_def model_url_def)
  have x1: "extract_class_ids ?good = Inr [PInt 7]"
    by (simp add: extract_class_ids_def dict_get_def)
  have x2: "extract_class_ids ?bad = Inl (KeyError ''predictions'')"
    by (simp add: extract_class_ids_def dict_get_def)
  from predict_on_response [OF e1, of example_world] x1
  have a: "predict example_tf ''v_opt'' (PList []) example_world =
     (Inr (PList [PInt 7]),
      example_world\<lparr>calls := [Execute (PDict [(''instances'', PList [])])
                                  (model_url ''v_opt'')]\<rparr>)"
    by (auto simp: example_world_def)
  from predict_on_response [OF e2, of example_world] x2
  have b: "predict example_tf ''v_org'' (PList []) example_world =
     (Inr PNone,
      example_world
        \<lparr>calls := [Execute (PDict [(''instances'', PList [])]) (model_url ''v_org'')],
          stdout := [PrintValue ?bad]\<rparr>)"
    by (auto simp: example_world_def)
  from a b show ?thesis by simp
qed

subsection \<open>Timing\<close>

lemma print_first_rows_frame:
  "\<exists>r ls. print_first_rows out w = (r, w\<lparr>stdout := stdout w @ ls\<rparr>)"
proof (induction out arbitrary: w rule: print_first_rows.induct)
  case 1
  have "print_first_rows [] w = (Inr (), w\<lparr>stdout := stdout w @ []\<rparr>)"
    by (simp add: ret_def)
  then show ?case by blast
next
  case (2 key rest)
  have "print_first_rows ((key, []) # rest) w = (Inl IndexError, w\<lparr>stdout := stdout w @ []\<rparr>)"
    by (simp add: raise_def)
  then show ?case by blast
next
  case (3 key v vs rest)
  let ?l = "Format ''{}: {}'' [Str key, Value v]"
  from 3 [of "w\<lparr>stdout := stdout w @ [?l]\<rparr>"] obtain r ls where
    "print_first_rows rest (w\<lparr>stdout := stdout w @ [?l]\<rparr>)
      = (r, w\<lparr>stdout := stdout w @ [?l]\<rparr>\<lparr>stdout := stdout (w\<lparr>stdout := stdout w @ [?l]\<rparr>) @ ls\<rparr>)"
    by blast
  then have "print_first_rows ((key, v # vs) # rest) w
      = (r, w\<lparr>stdout := stdout w @ (?l # ls)\<rparr>)"
    by (simp add: bnd_apply print_def)
  then show ?case by blast
qed

lemma reported_no_format:
  "reported fmt (case r of Inr ids \<Rightarrow> [] | Inl e \<Rightarrow> [PrintValue v]) = None"
  by (cases r) simp_all

lemma inference_test_trace:
  assumes "0 < repeat" "0 \<le> batch"
    and "from_saved_model tf (files w) dir sig = Inr p"
    and "run_predictor tf p input_name (take (nat batch) (eval_data tf)) = Inr out"
    and "dict_get out ''class_ids'' = Inr cls"
  shows "\<exists>r w' new t1 t2 t3 t4.
      inference_test tf dir sig input_name batch repeat w = (r, w') \<and>
      calls w' = calls w @ [Utcnow t1, FromSavedModel dir sig, Utcnow t2, Utcnow t3]
                  @ replicate (nat repeat)
                      (Predictor input_name (take (nat batch) (eval_data tf)))
                  @ [Utcnow t4] \<and>
      stdout w' = stdout w @ new \<and>
      reported ''Average latency per batch: {} seconds'' new
        = Some [SecondsPer (t4 - t3) repeat]"
proof -
  let ?ev = "Predictor input_name (take (nat batch) (eval_data tf))"
  let ?t1 = "utcnow tf (calls w)"
  let ?c1 = "calls w @ [Utcnow ?t1, FromSavedModel dir sig]"
  let ?t2 = "utcnow tf ?c1"
  let ?c2 = "?c1 @ [Utcnow ?t2]"
  let ?t3 = "utcnow tf ?c2"
  let ?c3 = "?c2 @ [Utcnow ?t3] @ replicate (nat repeat) ?ev"
  let ?t4 = "utcnow tf ?c3"
  let ?c4 = "?c3 @ [Utcnow ?t4]"
  let ?new = "[Print '''', Format ''Model loading time: {} seconds'' [Seconds (?t2 - ?t1)],
     Print '''',
     Format ''Inference elapsed time: {} seconds'' [Seconds (?t4 - ?t3)], Print '''',
     Format ''Prediction produced for {} instances batch, repeated {} times''
       [Count (length cls), Num repeat],
     Format ''Average latency per batch: {} seconds'' [SecondsPer (?t4 - ?t3) repeat],
     Print '''', Print ''Prediction output for the last instance:'']"
  let ?w8 = "w\<lparr>calls := ?c4, stdout := stdout w @ ?new\<rparr>"
  have body: "call_predictor tf p input_name (slice_to (eval_data tf) batch) v
      = (Inr out, v\<lparr>calls := calls v @ [?ev]\<rparr>)" for v
    using assms(2,4) by (simp add: call_predictor_def slice_to_def)
  have run: "inference_test tf dir sig input_name batch repeat w = print_first_rows out ?w8"
    unfolding inference_test_def
    using assms(1,3,5)
    by (simp add: bnd_apply now_apply load_predictor_def for_range_log [OF body]
        prints_apply print_apply ret_apply)
  define t1 t2 t3 t4 where "t1 = ?t1" and "t2 = ?t2" and "t3 = ?t3" and "t4 = ?t4"
  define new W where "new = ?new" and "W = ?w8"
  obtain r ls where fin: "print_first_rows out W = (r, W\<lparr>stdout := stdout W @ ls\<rparr>)"
    using print_first_rows_frame by blast
  have c: "calls (W\<lparr>stdout := stdout W @ ls\<rparr>)
      = calls w @ [Utcnow t1, FromSavedModel dir sig, Utcnow t2, Utcnow t3]
      @ replicate (nat repeat) ?ev @ [Utcnow t4]"
    by (simp add: W_def t1_def t2_def t3_def t4_def)
  have o: "stdout (W\<lparr>stdout := stdout W @ ls\<rparr>) = stdout w @ (new @ ls)"
    by (simp add: W_def new_def)
  have a: "reported ''Average latency per batch: {} seconds'' (new @ ls)
      = Some [SecondsPer (t4 - t3) repeat]"
    by (simp add: new_def t3_def t4_def)
  from run fin have "inference_test tf dir sig input_name batch repeat w
      = (r, W\<lparr>stdout := stdout W @ ls\<rparr>)"
    by (simp add: W_def)
  with c o a show ?thesis by blast
qed

lemma inference_cmle_trace:
  assumes "0 < repeat" "nat batch \<le> length (eval_data tf)"
    and "instances_of (take (nat batch) (eval_data tf)) = first # rest"
    and "execute tf (PDict [(''instances'', first)]) (model_url version) = Inr warmup"
    and "execute tf (PDict [(''instances'', PList (first # rest))]) (model_url version)
          = Inr response"
    and "extract_class_ids response = Inr ids"
  shows "\<exists>r w' new t1 t2.
      inference_cmle tf version batch repeat w = (r, w') \<and>
      calls w' = calls w @ [Execute (PDict [(''instances'', first)]) (model_url version),
                            Utcnow t1]
                  @ replicate (nat repeat)
                      (Execute (PDict [(''instances'', PList (first # rest))])
                         (model_url version))
                  @ [Utcnow t2] \<and>
      stdout w' = stdout w @ new \<and>
      reported ''Average latency per batch: {} seconds'' new
        = Some [SecondsPer (t2 - t1) repeat]"
proof -
  let ?warm = "Execute (PDict [(''instances'', first)]) (model_url version)"
  let ?ev = "Execute (PDict [(''instances'', PList (first # rest))]) (model_url version)"
  let ?pr = "case extract_class_ids warmup of Inr ids \<Rightarrow> [] | Inl e \<Rightarrow> [PrintValue warmup]"
  let ?c1 = "calls w @ [?warm]"
  let ?t1 = "utcnow tf ?c1"
  let ?c2 = "?c1 @ [Utcnow ?t1] @ replicate (nat repeat) ?ev"
  let ?t2 = "utcnow tf ?c2"
  let ?c3 = "?c2 @ [Utcnow ?t2]"
  let ?new = "?pr @ [Print ''Warm up request performed!'', Print ''Timer started...'',
     Print '''',
     Format ''Inference elapsed time: {} seconds'' [Seconds (?t2 - ?t1)], Print '''',
     Format ''Prediction produced for {} instances batch, repeated {} times''
       [Count (length ids), Num repeat],
     Format ''Average latency per batch: {} seconds'' [SecondsPer (?t2 - ?t1) repeat],
     Print '''']"
  let ?W = "w\<lparr>calls := ?c3, stdout := stdout w @ ?new\<rparr>"
  have body: "predict tf version (PList (first # rest)) v = (Inr (PList ids), v\<lparr>calls := calls v @ [?ev]\<rparr>)"
    for v
    using predict_apply [OF assms(5), of v] assms(6) by simp
  have run: "inference_cmle tf version batch repeat w =
      bnd (lift (first_item (PList ids)))
        (\<lambda>first. print (Format ''Prediction output for the last instance: {}'' [Value first]))
        ?W"
    unfolding inference_cmle_def
    using assms(1,2,3)
    by (simp add: bnd_apply now_apply predict_apply [OF assms(4)] for_range_log [OF body]
        prints_apply print_apply ret_apply)
  define t1 t2 where "t1 = ?t1" and "t2 = ?t2"
  define new W where "new = ?new" and "W = ?W"
  have "\<exists>r ls. bnd (lift (first_item (PList ids)))
        (\<lambda>first. print (Format ''Prediction output for the last instance: {}'' [Value first]))
        W = (r, W\<lparr>stdout := stdout W @ ls\<rparr>)"
  proof (cases ids)
    case Nil
    then have "bnd (lift (first_item (PList ids)))
        (\<lambda>first. print (Format ''Prediction output for the last instance: {}'' [Value first]))
        W = (Inl IndexError, W\<lparr>stdout := stdout W @ []\<rparr>)"
      by (simp add: raise_apply)
    then show ?thesis by blast
  next
    case (Cons c cs)
    then have "bnd (lift (first_item (PList ids)))
        (\<lambda>first. print (Format ''Prediction output for the last instance: {}'' [Value first]))
        W = (Inr (), W\<lparr>stdout := stdout W @
              [Format ''Prediction output for the last instance: {}'' [Value c]]\<rparr>)"
      by (simp add: print_apply)
    then show ?thesis by blast
  qed
  then obtain r ls where fin: "bnd (lift (first_item (PList ids)))
        (\<lambda>first. print (Format ''Prediction output for the last instance: {}'' [Value first]))
        W = (r, W\<lparr>stdout := stdout W @ ls\<rparr>)"
    by blast
  have c: "calls (W\<lparr>stdout := stdout W @ ls\<rparr>)
      = calls w @ [?warm, Utcnow t1] @ replicate (nat repeat) ?ev @ [Utcnow t2]"
    by (simp add: W_def t1_def t2_def)
  have o: "stdout (W\<lparr>stdout := stdout W @ ls\<rparr>) = stdout w @ (new @ ls)"
    by (simp add: W_def new_def)
  have a: "reported ''Average latency per batch: {} seconds'' (new @ ls)
      = Some [SecondsPer (t2 - t1) repeat]"
    by (simp add: new_def t1_def t2_def reported_append reported_no_format)
  from run fin have "inference_cmle tf version batch repeat w
      = (r, W\<lparr>stdout := stdout W @ ls\<rparr>)"
    by (simp add: W_def)
  with c o a show ?thesis by blast
qed

text \<open>
  C7. With \<open>repeat\<close> positive and \<open>batch\<close> not negative, a model that loads and a predictor
  that answers with \<open>class_ids\<close>, \<open>inference_test\<close> reads the clock, calls the predictor
  \<open>repeat\<close> times on the first \<open>batch\<close> rows of the evaluation data and nothing else, reads
  the clock again, and reports as average latency the difference of the two readings
  divided by \<open>repeat\<close>. With \<open>repeat\<close> positive, \<open>batch\<close> at most the number of rows, a first
  row, and a service that answers with \<open>class_ids\<close>, \<open>inference_cmle\<close> sends one warm-up
  request, then reads the clock, sends \<open>repeat\<close> requests with the first \<open>batch\<close> rows,
  reads the clock again and reports the difference of the two readings divided by
  \<open>repeat\<close>; the warm-up request lies before the first of the two readings.
\<close>

theorem inference_timing:
  "(0 < repeat \<and> 0 \<le> batch \<and>
    from_saved_model tf (files w) dir sig = Inr p \<and>
    run_predictor tf p input_name (take (nat batch) (eval_data tf)) = Inr out \<and>
    dict_get out ''class_ids'' = Inr cls \<longrightarrow>
    (\<exists>r w' new t1 t2 t3 t4.
      inference_test tf dir sig input_name batch repeat w = (r, w') \<and>
      calls w' = calls w @ [Utcnow t1, FromSavedModel dir sig, Utcnow t2, Utcnow t3]
                  @ replicate (nat repeat)
                      (Predictor input_name (take (nat batch) (eval_data tf)))
                  @ [Utcnow t4] \<and>
      stdout w' = stdout w @ new \<and>
      reported ''Average latency per batch: {} seconds'' new
        = Some [SecondsPer (t4 - t3) repeat])) \<and>
   (0 < repeat \<and> nat batch \<le> length (eval_data tf) \<and>
    instances_of (take (nat batch) (eval_data tf)) = first # rest \<and>
    execute tf (PDict [(''instances'', first)]) (model_url version) = Inr warmup \<and>
    execute tf (PDict [(''instances'', PList (first # rest))]) (model_url version)
      = Inr response \<and>
    extract_class_ids response = Inr ids \<longrightarrow>
    (\<exists>r w' new t1 t2.
      inference_cmle tf version batch repeat w = (r, w') \<and>
      calls w' = calls w @ [Execute (PDict [(''instances'', first)]) (model_url version),
                            Utcnow t1]
                  @ replicate (nat repeat)
                      (Execute (PDict [(''instances'', PList (first # rest))])
                         (model_url version))
                  @ [Utcnow t2] \<and>
      stdout w' = stdout w @ new \<and>
      reported ''Average latency per batch: {} seconds'' new
        = Some [SecondsPer (t2 - t1) repeat]))"
proof (intro conjI impI)
  assume "0 < repeat \<and> 0 \<le> batch \<and>
    from_saved_model tf (files w) dir sig = Inr p \<and>
    run_predictor tf p input_name (take (nat batch) (eval_data tf)) = Inr out \<and>
    dict_get out ''class_ids'' = Inr cls"
  then show "\<exists>r w' new t1 t2 t3 t4.
      inference_test tf dir sig input_name batch repeat w = (r, w') \<and>
      calls w' = calls w @ [Utcnow t1, FromSavedModel dir sig, Utcnow t2, Utcnow t3]
                  @ replicate (nat repeat)
                      (Predictor input_name (take (nat batch) (eval_data tf)))
                  @ [Utcnow t4] \<and>
      stdout w' = stdout w @ new \<and>
      reported ''Average latency per batch: {} seconds'' new
        = Some [SecondsPer (t4 - t3) repeat]"
    using inference_test_trace [of repeat batch tf w dir sig p input_name out cls] by simp
next
  assume "0 < repeat \<and> nat batch \<le> length (eval_data tf) \<and>
    instances_of (take (nat batch) (eval_data tf)) = first # rest \<and>
    execute tf (PDict [(''instances'', first)]) (model_url version) = Inr warmup \<and>
    execute tf (PDict [(''instances'', PList (first # rest))]) (model_url version)
      = Inr response \<and>
    extract_class_ids response = Inr ids"
  then show "\<exists>r w' new t1 t2.
      inference_cmle tf version batch repeat w = (r, w') \<and>
      calls w' = calls w @ [Execute (PDict [(''instances'', first)]) (model_url version),
                            Utcnow t1]
                  @ replicate (nat repeat)
                      (Execute (PDict [(''instances'', PList (first # rest))])
                         (model_url version))
                  @ [Utcnow t2] \<and>
      stdout w' = stdout w @ new \<and>
      reported ''Average latency per batch: {} seconds'' new
        = Some [SecondsPer (t2 - t1) repeat]"
    using inference_cmle_trace [of repeat batch tf first rest version warmup response ids w]
    by simp
qed

theorem inference_timing_witness:
  "(\<exists>r w' new t1 t2 t3 t4.
      inference_test example_tf ''m'' ''predict'' ''input_image'' 1 2 example_world = (r, w') \<and>
      calls w' = [Utcnow t1, FromSavedModel ''m'' ''predict'', Utcnow t2, Utcnow t3,
                  Predictor ''input_image'' [[0, 1 / 2]],
                  Predictor ''input_image'' [[0, 1 / 2]],
                  Utcnow t4] \<and>
      stdout w' = new \<and>
      reported ''Average latency per batch: {} seconds'' new = Some [SecondsPer (t4 - t3) 2]) \<and>
   (\<exists>r w' new t1 t2.
      inference_cmle example_tf ''v_opt'' 1 2 example_world = (r, w') \<and>
      calls w' =
        [Execute (PDict [(''instances'',
                          PDict [(''input_image'', PList [PFloat 0, PFloat (1 / 2)])])])
           (model_url ''v_opt''),
         Utcnow t1,
         Execute (PDict [(''instances'',
                          PList [PDict [(''input_image'', PList [PFloat 0, PFloat (1 / 2)])]])])
           (model_url ''v_opt''),
         Execute (PDict [(''instances'',
                          PList [PDict [(''input_image'', PList [PFloat 0, PFloat (1 / 2)])]])])
           (model_url ''v_opt''),
         Utcnow t2] \<and>
      stdout w' = new \<and>
      reported ''Average latency per batch: {} seconds'' new = Some [SecondsPer (t2 - t1) 2])"
proof -
  let ?first = "PDict [(''input_image'', PList [PFloat 0, PFloat (1 / 2)])]"
  let ?good = "PDict [(''predictions'', PList [PDict [(''class_ids'', PInt 7)]])]"
  have h1: "(0::int) < 2 \<and> (0::int) \<le> 1 \<and>
    from_saved_model example_tf (files example_world) ''m'' ''predict'' = Inr () \<and>
    run_predictor example_tf () ''input_image'' (take (nat 1) (eval_data example_tf))
      = Inr [(''class_ids'', [PInt 7])] \<and>
    dict_get [(''class_ids'', [PInt 7])] ''class_ids'' = Inr [PInt 7]"
    by (simp add: example_tf_def dict_get_def)
  have h2: "(0::int) < 2 \<and> nat 1 \<le> length (eval_data example_tf) \<and>
    instances_of (take (nat 1) (eval_data example_tf)) = ?first # [] \<and>
    execute example_tf (PDict [(''instances'', ?first)]) (model_url ''v_opt'') = Inr ?good \<and>
    execute example_tf (PDict [(''instances'', PList (?first # []))]) (model_url ''v_opt'')
      = Inr ?good \<and>
    extract_class_ids ?good = Inr [PInt 7]"
    by (simp add: example_tf_def instances_of_def extract_class_ids_def dict_get_def)
  have ev: "take (nat 1) (eval_data example_tf) = [[0, 1 / 2]]"
    by (simp add: example_tf_def)
  have w0: "calls example_world = []" "stdout example_world = []"
    by (simp_all add: example_world_def)
  note t = inference_timing [of 2 1 example_tf example_world "''m''" "''predict''" "()"
      "''input_image''" "[(''class_ids'', [PInt 7])]" "[PInt 7]" ?first "[]" "''v_opt''"
      ?good ?good "[PInt 7]"]
  from t h1 have a: "\<exists>r w' new t1 t2 t3 t4.
      inference_test example_tf ''m'' ''predict'' ''input_image'' 1 2 example_world = (r, w') \<and>
      calls w' = calls example_world
                  @ [Utcnow t1, FromSavedModel ''m'' ''predict'', Utcnow t2, Utcnow t3]
                  @ replicate (nat 2)
                      (Predictor ''input_image'' (take (nat 1) (eval_data example_tf)))
                  @ [Utcnow t4] \<and>
      stdout w' = stdout example_world @ new \<and>
      reported ''Average latency per batch: {} seconds'' new = Some [SecondsPer (t4 - t3) 2]"
    by blast
  from t h2 have b: "\<exists>r w' new t1 t2.
      inference_cmle example_tf ''v_opt'' 1 2 example_world = (r, w') \<and>
      calls w' = calls example_world
                  @ [Execute (PDict [(''instances'', ?first)]) (model_url ''v_opt''), Utcnow t1]
                  @ replicate (nat 2)
                      (Execute (PDict [(''instances'', PList (?first # []))])
                         (model_url ''v_opt''))
                  @ [Utcnow t2] \<and>
      stdout w' = stdout example_world @ new \<and>
      reported ''Average latency per batch: {} seconds'' new = Some [SecondsPer (t2 - t1) 2]"
    by blast
  have n2: "replicate (nat 2) x = [x, x]" for x :: event
    by (simp add: numeral_2_eq_2)
  from a b show ?thesis
    unfolding ev w0 n2 by simp
qed

text \<open>
  The run of \<open>inference_test\<close> on the small instance, with a batch of one row repeated
  twice: the clock reads 3000 before the first call and 6000 after the second.
\<close>

lemma inference_test_example:
  "inference_test example_tf ''m'' ''predict'' ''input_image'' 1 2 example_world =
    (Inr (),
     example_world
       \<lparr>stdout :=
          [Print '''', Format ''Model loading time: {} seconds'' [Seconds 2000], Print '''',
           Format ''Inference elapsed time: {} seconds'' [Seconds 3000], Print '''',
           Format ''Prediction produced for {} instances batch, repeated {} times''
             [Count 1, Num 2],
           Format ''Average latency per batch: {} seconds'' [SecondsPer 3000 2],
           Print '''', Print ''Prediction output for the last instance:'',
           Format ''{}: {}'' [Str ''class_ids'', Value (PInt 7)]],
        calls :=
          [Utcnow 0, FromSavedModel ''m'' ''predict'', Utcnow 2000, Utcnow 3000,
           Predictor ''input_image'' [[0, 1 / 2]],
           Predictor ''input_image'' [[0, 1 / 2]],
           Utcnow 6000]\<rparr>)"
  by (simp add: inference_test_def example_tf_def example_world_def bnd_apply now_apply
      load_predictor_def call_predictor_def slice_to_def dict_get_def prints_apply print_apply
      ret_apply numeral_2_eq_2)

subsection \<open>The run of the notebook\<close>

lemma keeps_filesD: "keeps_files m \<Longrightarrow> m w = (r, w') \<Longrightarrow> files w' = files w"
  by (auto simp: keeps_files_def dest: spec [of _ w])

lemma keeps_ret: "keeps_files (ret x)"
  by (simp add: keeps_files_def ret_def)

lemma keeps_raise: "keeps_files (raise e)"
  by (simp add: keeps_files_def raise_def)

lemma keeps_lift: "keeps_files (lift r)"
  by (cases r) (simp_all add: keeps_ret keeps_raise)

lemma keeps_print: "keeps_files (print l)"
  by (simp add: keeps_files_def print_def)

lemma keeps_prints: "keeps_files (prints ls)"
  by (simp add: keeps_files_def prints_def)

lemma keeps_now: "keeps_files (now tf)"
  by (simp add: keeps_files_def now_apply)

lemma keeps_load_predictor: "keeps_files (load_predictor tf dir key)"
  by (simp add: keeps_files_def load_predictor_def)

lemma keeps_call_predictor: "keeps_files (call_predictor tf p nm rows)"
  by (simp add: keeps_files_def call_predictor_def)

lemma keeps_bnd:
  assumes "keeps_files m" and "\<And>x. keeps_files (f x)"
  shows "keeps_files (bnd m f)"
  unfolding keeps_files_def
proof
  fix w
  obtain r w' where m: "m w = (r, w')"
    by (cases "m w")
  with assms(1) have f: "files w' = files w"
    by (rule keeps_filesD)
  show "files (snd (bnd m f w)) = files w"
  proof (cases r)
    case (Inl e)
    with m f show ?thesis by (simp add: bnd_apply)
  next
    case (Inr x)
    obtain r' w'' where fx: "f x w' = (r', w'')"
      by (cases "f x w'")
    with assms(2) have "files w'' = files w'"
      by (rule keeps_filesD)
    with m f fx Inr show ?thesis by (simp add: bnd_apply)
  qed
qed

lemma keeps_if: "keeps_files a \<Longrightarrow> keeps_files b \<Longrightarrow> keeps_files (if c then a else b)"
  by simp

lemma keeps_for_range: "keeps_files body \<Longrightarrow> keeps_files (for_range n body acc)"
  by (induction n arbitrary: acc) (simp_all add: keeps_ret keeps_bnd)

lemma keeps_print_first_rows: "keeps_files (print_first_rows out)"
  by (induction out rule: print_first_rows.induct)
     (simp_all add: keeps_ret keeps_raise keeps_bnd keeps_print)

lemma keeps_inference_test: "keeps_files (inference_test tf dir key nm batch repeat)"
  unfolding inference_test_def
  by (intro keeps_bnd keeps_now keeps_load_predictor keeps_prints keeps_for_range
      keeps_call_predictor keeps_lift keeps_print keeps_if keeps_raise keeps_print_first_rows)

lemma keeps_get_size: "keeps_files (get_size dir)"
  by (simp add: keeps_files_def get_size_def bnd_apply print_apply ret_apply raise_apply
      lift_def split: sum.splits)

lemma keeps_get_graph_def_from_file: "keeps_files (get_graph_def_from_file tf path)"
  by (simp add: keeps_files_def get_graph_def_from_file_apply split: option.splits)

lemma keeps_predict: "keeps_files (predict tf version instances)"
  by (simp add: keeps_files_def predict_def Let_def bnd_apply ret_apply print_apply
      split: sum.splits)

lemma keeps_case_list:
  "keeps_files a \<Longrightarrow> (\<And>x xs. keeps_files (b x xs))
    \<Longrightarrow> keeps_files (case l of [] \<Rightarrow> a | x # xs \<Rightarrow> b x xs)"
  by (cases l) simp_all

lemma keeps_inference_cmle: "keeps_files (inference_cmle tf version batch repeat)"
  unfolding inference_cmle_def
  by (intro keeps_bnd keeps_now keeps_prints keeps_for_range keeps_predict keeps_lift
      keeps_print keeps_if keeps_raise keeps_ret keeps_case_list)

lemma keeps_run_inspect: "keeps_files (run_inspect sh s)"
  by (simp add: keeps_files_def run_inspect_def split: sum.splits)

lemma keeps_get_graph_def_from_saved_model:
  "keeps_files (get_graph_def_from_saved_model sh dir)"
  by (simp add: keeps_files_def get_graph_def_from_saved_model_def bnd_apply prints_apply
      lift_def ret_apply raise_apply split: sum.splits)

lemma keeps_exec: "quiet s \<Longrightarrow> keeps_files (exec tf sh global s)"
  by (cases s)
     (simp_all add: keeps_run_inspect keeps_inference_test keeps_get_size keeps_inference_cmle
        keeps_bnd keeps_get_graph_def_from_saved_model keeps_get_graph_def_from_file
        keeps_prints keeps_print)

lemma bnd_InrE:
  assumes "bnd m f w = (Inr y, w'')"
  obtains x w' where "m w = (Inr x, w')" and "f x w' = (Inr y, w'')"
  using assms by (auto simp: bnd_apply split: prod.splits sum.splits)

lemma run_all_ConsE:
  assumes "run_all f (s # ss) w = (Inr (), w'')"
  obtains w' where "f s w = (Inr (), w')" and "run_all f ss w' = (Inr (), w'')"
  using assms by (auto elim: bnd_InrE)

lemma run_all_NilD: "run_all f [] w = (Inr (), w') \<Longrightarrow> w' = w"
  by (simp add: ret_apply)

lemma last_export_returns:
  assumes "last_export w = (Inr d, w')"
  shows "w' = w \<and>
    (\<exists>names. os_listdir (files w) export_dir = Inr names \<and>
       d = os_path_join export_dir (last names))"
  using assms by (auto simp: last_export_def split: sum.splits list.splits)

lemma run_command_returns:
  "run_command sh s w = (Inr (), w') \<Longrightarrow> command sh s (files w) = Inr (files w')"
  by (auto simp: run_command_def split: sum.splits)

lemma delete_if_exists_apply:
  "delete_if_exists dir w = (Inr (), w\<lparr>files := delete_tree dir (files w)\<rparr>)"
  by (simp add: delete_if_exists_def gfile_delete_recursively_def ret_apply delete_tree_absent)

lemma run_experiment_returns:
  "run_experiment tf sh dir w = (Inr (), w')
    \<Longrightarrow> command sh (TrainAndEvaluate dir) (files w) = Inr (files w')"
  by (auto simp: run_experiment_def bnd_apply now_apply prints_apply run_command_def
      split: sum.splits)

lemma exec_train_returns:
  assumes "exec tf sh global (TrainAndEvaluate dir) w = (Inr (), w')"
  shows "command sh (TrainAndEvaluate dir) (delete_tree dir (files w)) = Inr (files w')"
proof -
  from assms obtain w1 where
    a: "(if os_path_exists (files w) dir
         then bnd (print (Print ''Removing previous artifacts...''))
                (\<lambda>_. gfile_delete_recursively dir) w
         else ret () w) = (Inr (), w1)" and
    b: "run_experiment tf sh dir w1 = (Inr (), w')"
    by (auto elim!: bnd_InrE)
  from a have "files w1 = delete_tree dir (files w)"
    by (auto simp: bnd_apply print_apply gfile_delete_recursively_def ret_apply
        delete_tree_absent split: if_splits)
  with run_experiment_returns [OF b] show ?thesis by simp
qed

lemma exec_export_returns:
  assumes "exec tf sh global (ExportSavedmodel dir) w = (Inr (), w')"
  shows "command sh (ExportSavedmodel dir) (delete_tree dir (files w)) = Inr (files w')"
  using assms
  by (auto simp: bnd_apply delete_if_exists_apply dest: run_command_returns)

lemma freeze_graph_returns:
  assumes "freeze_graph tf d w = (Inr (), w')"
  shows "tools_freeze_graph tf
            \<lparr>input_saved_model_dir = d,
             output_graph = os_path_join d ''freezed_model.pb'',
             saved_model_tags = ''serve'',
             output_node_names = ''head/predictions/ExpandDims'',
             initializer_nodes = '''',
             input_graph = None,
             input_saver = False,
             input_binary = False,
             input_checkpoint = None,
             restore_op_name = None,
             filename_tensor_name = None,
             clear_devices = False,
             input_meta_graph = False\<rparr> (files w) = Inr (files w')"
  using assms by (auto simp: freeze_graph_apply split: sum.splits)

lemma optimize_graph_returns:
  assumes "optimize_graph tf d f ts w = (Inr (), w')"
  shows "\<exists>bytes g g'.
    map_of (files w) (os_path_join d f) = Some bytes \<and>
    ParseFromString tf bytes = Some g \<and>
    TransformGraph tf g [] [''head/predictions/ExpandDims''] ts = Inr g' \<and>
    files w' = AList.update (os_path_join d ''optimised_model.pb'')
                 (SerializeToString tf g') (files w)"
  using assms
  by (auto simp: optimize_graph_def bnd_apply get_graph_def_from_file_apply write_graph_def
      raise_apply ret_apply lift_def print_apply Let_def split: option.splits sum.splits)

lemma convert_graph_def_to_saved_model_returns:
  assumes "convert_graph_def_to_saved_model tf dir path w = (Inr (), w')"
  shows "\<exists>bytes g graph inputs class_ids.
    map_of (delete_tree (os_path_join dir ''optimised'') (files w)) path = Some bytes \<and>
    ParseFromString tf bytes = Some g \<and>
    import_graph_def tf g = Inr graph \<and>
    get_tensor_by_name tf graph ''head/predictions/ExpandDims:0'' = Inr class_ids \<and>
    simple_save tf graph (os_path_join dir ''optimised'') inputs [(''class_ids'', class_ids)]
      (delete_tree (os_path_join dir ''optimised'') (files w)) = Inr (files w')"
proof -
  let ?E = "os_path_join dir ''optimised''"
  have first: "(\<lambda>w. if os_path_exists (files w) ?E then gfile_delete_recursively ?E w
                     else ret () w) = delete_if_exists ?E"
    by (simp add: delete_if_exists_def)
  from assms show ?thesis
    unfolding convert_graph_def_to_saved_model_def Let_def first
    by (auto simp: bnd_apply delete_if_exists_apply get_graph_def_from_file_apply
        raise_apply ret_apply lift_def print_apply split: option.splits sum.splits)
qed

lemma optimised_file_not_below:
  "\<not> below (os_path_join d ''optimised'') (os_path_join d ''optimised_model.pb'')"
  by (auto simp: below_def os_path_join_def)

lemma run_all_append: "run_all f (xs @ ys) = bnd (run_all f xs) (\<lambda>_. run_all f ys)"
proof (induction xs)
  case Nil
  show ?case by simp
next
  case (Cons x xs)
  show ?case
    by (rule ext) (simp add: Cons bnd_apply split: prod.splits sum.splits)
qed

lemma run_all_appendE:
  assumes "run_all f (xs @ ys) w = (Inr (), w'')"
  obtains w' where "run_all f xs w = (Inr (), w')" and "run_all f ys w' = (Inr (), w'')"
  using assms unfolding run_all_append by (auto elim: bnd_InrE)

lemma keeps_run_all:
  "(\<And>s. s \<in> set ss \<Longrightarrow> keeps_files (f s)) \<Longrightarrow> keeps_files (run_all f ss)"
  by (induction ss) (simp_all add: keeps_ret keeps_bnd)

lemma keeps_attempt:
  assumes "keeps_files m"
  shows "keeps_files (attempt m)"
  unfolding keeps_files_def
proof
  fix w
  obtain r w' where m: "m w = (r, w')"
    by (cases "m w")
  with assms have "files w' = files w"
    by (rule keeps_filesD)
  with m show "files (snd (attempt m w)) = files w"
    by (cases r) (simp_all add: attempt_def)
qed

lemma keeps_run_script:
  "list_all quiet ss \<Longrightarrow> keeps_files (run_script (exec tf sh global) ss)"
  by (induction "exec tf sh global" ss rule: run_script.induct)
     (simp_all add: keeps_ret keeps_bnd keeps_exec keeps_attempt)

lemma keeps_dep: "(\<And>x. keeps_files (h x)) \<Longrightarrow> keeps_files (\<lambda>w. h (g w) w)"
  by (simp add: keeps_files_def)

lemma cells:
  "cell 23 d = [Echo d, Ls d, SavedModelCliShow d]"
  "cell 27 d = [InferenceTest d ''predict'' ''input_image'']"
  "cell 33 d = [DescribeSavedModel d]"
  "cell 36 d = [GetSize d]"
  "cell 39 d = [FreezeGraph d]"
  "cell 40 d = [Echo d, Ls d]"
  "cell 44 d = [DescribeFile (os_path_join d ''freezed_model.pb'')]"
  "cell 48 d = [OptimizeGraph d ''freezed_model.pb'' transforms]"
  "cell 49 d = [Echo d, Ls d]"
  "cell 51 d = [DescribeFile (os_path_join d ''optimised_model.pb'')]"
  "cell 54 d = [ConvertGraphDefToSavedModel (os_path_join d ''optimised_model.pb'')]"
  "cell 56 d = [GetSize (os_path_join d ''optimised'')]"
  "cell 57 d = [Ls (d @ ''/optimised''), SavedModelCliShow (d @ ''/optimised'')]"
  "cell 59 d = [InferenceTest (os_path_join d ''optimised'') ''serving_default'' ''input_image'']"
  "cell 63 d = [GsutilRm (''gs://'' @ BUCKET @ ''/tf-model-optimisation'')]"
  "cell 64 d = [Echo d, GsutilCp d (''gs://'' @ BUCKET @ ''/tf-model-optimisation/original'')]"
  "cell 65 d = [Echo (d @ ''/optimised''),
                GsutilCp (d @ ''/optimised'') (''gs://'' @ BUCKET @ ''/tf-model-optimisation'')]"
  "cell 67 d = [Echo MODEL_NAME, ModelsCreate MODEL_NAME]"
  "cell 69 d = [VersionsCreate ''v_org'' MODEL_NAME
                  (''gs://'' @ BUCKET @ ''/tf-model-optimisation/original'')]"
  "cell 71 d = [VersionsCreate ''v_opt'' MODEL_NAME
                  (''gs://'' @ BUCKET @ ''/tf-model-optimisation/optimised'')]"
  "cell 75 d = [InferenceCmle ''v_org'']"
  "cell 76 d = [InferenceCmle ''v_opt'']"
  by (simp_all add: cell_def notebook_def)

lemma quiet_cell: "k \<in> set quiet_cells \<Longrightarrow> list_all quiet (cell k d)"
  by (auto simp: quiet_cells_def cells)

lemma keeps_run_cell: "k \<in> set quiet_cells \<Longrightarrow> keeps_files (run_cell tf sh d k)"
proof -
  assume k: "k \<in> set quiet_cells"
  have "keeps_files (run_shell_cell tf sh k)"
    unfolding run_shell_cell_def
    by (rule keeps_dep) (rule keeps_run_script, rule quiet_cell, rule k)
  moreover have "keeps_files (run_python_cell tf sh d k)"
    unfolding run_python_cell_def
  proof (rule keeps_run_all)
    fix s
    assume "s \<in> set (cell k d)"
    with quiet_cell [OF k, of d] have "quiet s"
      by (simp add: list_all_iff)
    then show "keeps_files (exec tf sh (Some d) s)"
      by (rule keeps_exec)
  qed
  ultimately show ?thesis
    by (simp add: run_cell_def)
qed

lemma keeps_run_cells:
  "set ks \<subseteq> set quiet_cells \<Longrightarrow> keeps_files (run_all (run_cell tf sh d) ks)"
  by (rule keeps_run_all) (auto intro: keeps_run_cell)

lemma run_python_cell_returns:
  assumes "run_cell tf sh d k w = (Inr (), w')" and "k \<notin> set shell_cells" and "cell k d = [s]"
  shows "exec tf sh (Some d) s w = (Inr (), w')"
  using assms by (auto simp: run_cell_def run_python_cell_def ret_apply elim!: bnd_InrE)

lemma run_shell_command_returns:
  assumes "run_cell tf sh d k w = (Inr (), w')" and "k \<in> set shell_cells"
    and "cell k (shell_saved_model_dir sh (files w)) = [s]"
    and "exec tf sh None s = run_command sh s"
  shows "command sh s (files w) = Inr (files w')"
  using assms by (auto simp: run_cell_def run_shell_cell_def dest: run_command_returns)

lemma run_shell_echo_command_returns:
  assumes "run_cell tf sh d k w = (Inr (), w')" and "k \<in> set shell_cells"
    and "cell k (shell_saved_model_dir sh (files w)) = [Echo e, s]"
    and "exec tf sh None s = run_command sh s"
  shows "command sh s (files w) = Inr (files w')"
proof -
  from assms have "run_command sh s (w\<lparr>stdout := stdout w @ [Print e]\<rparr>) = (Inr (), w')"
    by (simp add: run_cell_def run_shell_cell_def bnd_apply attempt_def print_apply)
  from run_command_returns [OF this] show ?thesis
    by simp
qed

text \<open>
  C2. Whenever the notebook runs to its end, its steps have run in this order, each on
  the files the one before left. The model is trained and exported. \<open>freeze_graph\<close> runs on
  the directory \<open>d\<close> that the export directory lists last: it hands the SavedModel of \<open>d\<close> to
  the freezing tool, with \<open>d/freezed_model.pb\<close> as the file to write. \<open>optimize_graph\<close>
  parses the bytes of \<open>d/freezed_model.pb\<close> as they are after freezing, has the graph
  transformed and writes the result to \<open>d/optimised_model.pb\<close>.
  \<open>convert_graph_def_to_saved_model\<close> parses the bytes \<open>optimize_graph\<close> wrote, imports the
  graph and saves it as a SavedModel in \<open>d/optimised\<close>. Only then come the uploads to the
  bucket, of the directory the shell lists last in the export directory and of the
  directory \<open>optimised\<close> in it, and the creation of the model and of its two versions on
  the prediction service. The statements in between change no file.
\<close>

theorem notebook_run_pipeline:
  assumes "run_notebook tf sh w0 = (Inr (), w)"
  shows "\<exists>fs1 fs2 names d fs3 bytes g g' g'' graph inputs class_ids fs5 fs6 fs7 fs8 fs9 fs10.
    command sh (TrainAndEvaluate model_dir) (delete_tree model_dir (files w0)) = Inr fs1 \<and>
    command sh (ExportSavedmodel export_dir) (delete_tree export_dir fs1) = Inr fs2 \<and>
    os_listdir fs2 export_dir = Inr names \<and>
    d = os_path_join export_dir (last names) \<and>
    tools_freeze_graph tf
      \<lparr>input_saved_model_dir = d,
       output_graph = os_path_join d ''freezed_model.pb'',
       saved_model_tags = ''serve'',
       output_node_names = ''head/predictions/ExpandDims'',
       initializer_nodes = '''',
       input_graph = None,
       input_saver = False,
       input_binary = False,
       input_checkpoint = None,
       restore_op_name = None,
       filename_tensor_name = None,
       clear_devices = False,
       input_meta_graph = False\<rparr> fs2 = Inr fs3 \<and>
    map_of fs3 (os_path_join d ''freezed_model.pb'') = Some bytes \<and>
    ParseFromString tf bytes = Some g \<and>
    TransformGraph tf g [] [''head/predictions/ExpandDims''] transforms = Inr g' \<and>
    ParseFromString tf (SerializeToString tf g') = Some g'' \<and>
    import_graph_def tf g'' = Inr graph \<and>
    get_tensor_by_name tf graph ''head/predictions/ExpandDims:0'' = Inr class_ids \<and>
    simple_save tf graph (os_path_join d ''optimised'') inputs [(''class_ids'', class_ids)]
      (delete_tree (os_path_join d ''optimised'')
         (AList.update (os_path_join d ''optimised_model.pb'') (SerializeToString tf g') fs3))
      = Inr fs5 \<and>
    command sh (GsutilRm (''gs://'' @ BUCKET @ ''/tf-model-optimisation'')) fs5 = Inr fs6 \<and>
    command sh (GsutilCp (shell_saved_model_dir sh fs6)
                  (''gs://'' @ BUCKET @ ''/tf-model-optimisation/original'')) fs6 = Inr fs7 \<and>
    command sh (GsutilCp (shell_saved_model_dir sh fs7 @ ''/optimised'')
                  (''gs://'' @ BUCKET @ ''/tf-model-optimisation'')) fs7 = Inr fs8 \<and>
    command sh (ModelsCreate MODEL_NAME) fs8 = Inr fs9 \<and>
    command sh (VersionsCreate ''v_org'' MODEL_NAME
                  (''gs://'' @ BUCKET @ ''/tf-model-optimisation/original'')) fs9 = Inr fs10 \<and>
    command sh (VersionsCreate ''v_opt'' MODEL_NAME
                  (''gs://'' @ BUCKET @ ''/tf-model-optimisation/optimised'')) fs10
      = Inr (files w)"
proof -
  from assms obtain a1 a2 a3 d a4 where
    s19: "exec tf sh None (TrainAndEvaluate model_dir) w0 = (Inr (), a1)" and
    s21: "exec tf sh None (ExportSavedmodel export_dir) a1 = (Inr (), a2)" and
    s23: "run_shell_cell tf sh 23 a2 = (Inr (), a3)" and
    l27: "last_export a3 = (Inr d, a4)" and
    rest: "run_all (run_cell tf sh d)
             [27, 33, 36, 39, 40, 44, 48, 49, 51, 54, 56, 57, 59, 63, 64, 65, 67, 69, 71, 75, 76]
             a4 = (Inr (), w)"
    unfolding run_notebook_def by (elim bnd_InrE) auto
  let ?f = "run_cell tf sh d"
  let ?rm = "GsutilRm (''gs://'' @ BUCKET @ ''/tf-model-optimisation'')"
  let ?mc = "ModelsCreate MODEL_NAME"
  let ?v1 = "VersionsCreate ''v_org'' MODEL_NAME
               (''gs://'' @ BUCKET @ ''/tf-model-optimisation/original'')"
  let ?v2 = "VersionsCreate ''v_opt'' MODEL_NAME
               (''gs://'' @ BUCKET @ ''/tf-model-optimisation/optimised'')"
  have L: "[27, 33, 36, 39, 40, 44, 48, 49, 51, 54, 56, 57, 59, 63, 64, 65, 67, 69, 71, 75, 76] =
      [27, 33, 36] @ 39 # [40, 44] @ 48 # [49, 51] @ 54 # [56, 57, 59] @
      63 # 64 # 65 # 67 # 69 # 71 # [75, 76::nat]"
    by simp
  from rest [unfolded L] obtain b1 where
    q1: "run_all ?f [27, 33, 36] a4 = (Inr (), b1)" and
    r1: "run_all ?f (39 # [40, 44] @ 48 # [49, 51] @ 54 # [56, 57, 59] @
           63 # 64 # 65 # 67 # 69 # 71 # [75, 76]) b1 = (Inr (), w)"
    by (rule run_all_appendE)
  from r1 obtain b2 where
    fr: "?f 39 b1 = (Inr (), b2)" and
    r2: "run_all ?f ([40, 44] @ 48 # [49, 51] @ 54 # [56, 57, 59] @
           63 # 64 # 65 # 67 # 69 # 71 # [75, 76]) b2 = (Inr (), w)"
    by (rule run_all_ConsE)
  from r2 obtain b3 where
    q2: "run_all ?f [40, 44] b2 = (Inr (), b3)" and
    r3: "run_all ?f (48 # [49, 51] @ 54 # [56, 57, 59] @
           63 # 64 # 65 # 67 # 69 # 71 # [75, 76]) b3 = (Inr (), w)"
    by (rule run_all_appendE)
  from r3 obtain b4 where
    op: "?f 48 b3 = (Inr (), b4)" and
    r4: "run_all ?f ([49, 51] @ 54 # [56, 57, 59] @
           63 # 64 # 65 # 67 # 69 # 71 # [75, 76]) b4 = (Inr (), w)"
    by (rule run_all_ConsE)
  from r4 obtain b5 where
    q3: "run_all ?f [49, 51] b4 = (Inr (), b5)" and
    r5: "run_all ?f (54 # [56, 57, 59] @ 63 # 64 # 65 # 67 # 69 # 71 # [75, 76]) b5
           = (Inr (), w)"
    by (rule run_all_appendE)
  from r5 obtain b6 where
    cv: "?f 54 b5 = (Inr (), b6)" and
    r6: "run_all ?f ([56, 57, 59] @ 63 # 64 # 65 # 67 # 69 # 71 # [75, 76]) b6 = (Inr (), w)"
    by (rule run_all_ConsE)
  from r6 obtain b7 where
    q4: "run_all ?f [56, 57, 59] b6 = (Inr (), b7)" and
    r7: "run_all ?f (63 # 64 # 65 # 67 # 69 # 71 # [75, 76]) b7 = (Inr (), w)"
    by (rule run_all_appendE)
  from r7 obtain b8 where
    rm: "?f 63 b7 = (Inr (), b8)" and
    r8: "run_all ?f (64 # 65 # 67 # 69 # 71 # [75, 76]) b8 = (Inr (), w)"
    by (rule run_all_ConsE)
  from r8 obtain b9 where
    cp1: "?f 64 b8 = (Inr (), b9)" and
    r9: "run_all ?f (65 # 67 # 69 # 71 # [75, 76]) b9 = (Inr (), w)"
    by (rule run_all_ConsE)
  from r9 obtain b10 where
    cp2: "?f 65 b9 = (Inr (), b10)" and
    r10: "run_all ?f (67 # 69 # 71 # [75, 76]) b10 = (Inr (), w)"
    by (rule run_all_ConsE)
  from r10 obtain b11 where
    mc: "?f 67 b10 = (Inr (), b11)" and
    r11: "run_all ?f (69 # 71 # [75, 76]) b11 = (Inr (), w)"
    by (rule run_all_ConsE)
  from r11 obtain b12 where
    v1: "?f 69 b11 = (Inr (), b12)" and
    r12: "run_all ?f (71 # [75, 76]) b12 = (Inr (), w)"
    by (rule run_all_ConsE)
  from r12 obtain b13 where
    v2: "?f 71 b12 = (Inr (), b13)" and
    q5: "run_all ?f [75, 76] b13 = (Inr (), w)"
    by (rule run_all_ConsE)
  note keep = keeps_filesD [OF keeps_run_cells]
  have py: "39 \<notin> set shell_cells" "48 \<notin> set shell_cells" "54 \<notin> set shell_cells"
    and sh: "63 \<in> set shell_cells" "64 \<in> set shell_cells" "65 \<in> set shell_cells"
      "67 \<in> set shell_cells" "69 \<in> set shell_cells" "71 \<in> set shell_cells"
    by (simp_all add: shell_cells_def)
  from exec_train_returns [OF s19]
  have c1: "command sh (TrainAndEvaluate model_dir) (delete_tree model_dir (files w0))
      = Inr (files a1)" .
  from exec_export_returns [OF s21]
  have c2: "command sh (ExportSavedmodel export_dir) (delete_tree export_dir (files a1))
      = Inr (files a2)" .
  have "keeps_files (run_shell_cell tf sh 23)"
    unfolding run_shell_cell_def
    by (rule keeps_dep) (rule keeps_run_script, simp add: cells)
  from keeps_filesD [OF this s23] have a3: "files a3 = files a2" .
  from last_export_returns [OF l27] a3 obtain names where
    a4: "a4 = a3" and
    ls: "os_listdir (files a2) export_dir = Inr names" and
    d: "d = os_path_join export_dir (last names)"
    by auto
  from keep [OF _ q1] a4 a3 have b1: "files b1 = files a2"
    by (simp add: quiet_cells_def)
  from run_python_cell_returns [OF fr py(1) cells(5)]
  have "freeze_graph tf d b1 = (Inr (), b2)"
    by simp
  from freeze_graph_returns [OF this] b1
  have c3: "tools_freeze_graph tf
      \<lparr>input_saved_model_dir = d,
       output_graph = os_path_join d ''freezed_model.pb'',
       saved_model_tags = ''serve'',
       output_node_names = ''head/predictions/ExpandDims'',
       initializer_nodes = '''',
       input_graph = None,
       input_saver = False,
       input_binary = False,
       input_checkpoint = None,
       restore_op_name = None,
       filename_tensor_name = None,
       clear_devices = False,
       input_meta_graph = False\<rparr> (files a2) = Inr (files b2)"
    by simp
  from keep [OF _ q2] have b3: "files b3 = files b2"
    by (simp add: quiet_cells_def)
  from run_python_cell_returns [OF op py(2) cells(8)]
  have "optimize_graph tf d ''freezed_model.pb'' transforms b3 = (Inr (), b4)"
    by simp
  from optimize_graph_returns [OF this] b3 obtain bytes g g' where
    rd: "map_of (files b2) (os_path_join d ''freezed_model.pb'') = Some bytes" and
    ps: "ParseFromString tf bytes = Some g" and
    tr: "TransformGraph tf g [] [''head/predictions/ExpandDims''] transforms = Inr g'" and
    b4: "files b4 = AList.update (os_path_join d ''optimised_model.pb'')
                      (SerializeToString tf g') (files b2)"
    by auto
  from keep [OF _ q3] have b5: "files b5 = files b4"
    by (simp add: quiet_cells_def)
  from run_python_cell_returns [OF cv py(3) cells(11)]
  have "convert_graph_def_to_saved_model tf d (os_path_join d ''optimised_model.pb'') b5
      = (Inr (), b6)"
    by simp
  from convert_graph_def_to_saved_model_returns [OF this] b5
  obtain bytes' g'' graph inputs class_ids where
    rd': "map_of (delete_tree (os_path_join d ''optimised'') (files b4))
            (os_path_join d ''optimised_model.pb'') = Some bytes'" and
    ps': "ParseFromString tf bytes' = Some g''" and
    im: "import_graph_def tf g'' = Inr graph" and
    ct: "get_tensor_by_name tf graph ''head/predictions/ExpandDims:0'' = Inr class_ids" and
    sv: "simple_save tf graph (os_path_join d ''optimised'') inputs [(''class_ids'', class_ids)]
           (delete_tree (os_path_join d ''optimised'') (files b4)) = Inr (files b6)"
    by auto
  from rd' have "bytes' = SerializeToString tf g'"
    by (simp add: map_of_delete_tree [OF optimised_file_not_below] b4 update_conv')
  with ps' have ps'': "ParseFromString tf (SerializeToString tf g') = Some g''"
    by simp
  from keep [OF _ q4] have b7: "files b7 = files b6"
    by (simp add: quiet_cells_def)
  from run_shell_command_returns [OF rm sh(1) cells(15)] b7
  have c6: "command sh ?rm (files b6) = Inr (files b8)"
    by simp
  from run_shell_echo_command_returns [OF cp1 sh(2) cells(16)]
  have c7: "command sh (GsutilCp (shell_saved_model_dir sh (files b8))
              (''gs://'' @ BUCKET @ ''/tf-model-optimisation/original'')) (files b8)
      = Inr (files b9)"
    by simp
  from run_shell_echo_command_returns [OF cp2 sh(3) cells(17)]
  have c8: "command sh (GsutilCp (shell_saved_model_dir sh (files b9) @ ''/optimised'')
              (''gs://'' @ BUCKET @ ''/tf-model-optimisation'')) (files b9)
      = Inr (files b10)"
    by simp
  from run_shell_echo_command_returns [OF mc sh(4) cells(18)]
  have c9: "command sh ?mc (files b10) = Inr (files b11)"
    by simp
  from run_shell_command_returns [OF v1 sh(5) cells(19)]
  have c10: "command sh ?v1 (files b11) = Inr (files b12)"
    by simp
  from run_shell_command_returns [OF v2 sh(6) cells(20)]
  have c11: "command sh ?v2 (files b12) = Inr (files b13)"
    by simp
  from keep [OF _ q5] have "files w = files b13"
    by (simp add: quiet_cells_def)
  with c11 have c12: "command sh ?v2 (files b12) = Inr (files w)"
    by simp
  from sv b4 have sv': "simple_save tf graph (os_path_join d ''optimised'') inputs
      [(''class_ids'', class_ids)]
      (delete_tree (os_path_join d ''optimised'')
         (AList.update (os_path_join d ''optimised_model.pb'') (SerializeToString tf g')
            (files b2))) = Inr (files b6)"
    by simp
  show ?thesis
    apply (rule exI [of _ "files a1"], rule exI [of _ "files a2"], rule exI [of _ names],
        rule exI [of _ d], rule exI [of _ "files b2"], rule exI [of _ bytes],
        rule exI [of _ g], rule exI [of _ g'], rule exI [of _ g''], rule exI [of _ graph],
        rule exI [of _ inputs], rule exI [of _ class_ids], rule exI [of _ "files b6"],
        rule exI [of _ "files b8"], rule exI [of _ "files b9"], rule exI [of _ "files b10"],
        rule exI [of _ "files b11"], rule exI [of _ "files b12"])
    apply (intro conjI)
    apply (rule c1 c2 ls d c3 rd ps tr ps'' im ct sv' c6 c7 c8 c9 c10 c12)+
    done
qed

lemma for_range_call_predictor:
  assumes "run_predictor tf p nm rows = Inr out"
  shows "for_range n (call_predictor tf p nm rows) acc w =
    (Inr (if n = 0 then acc else Some out),
     w\<lparr>calls := calls w @ replicate n (Predictor nm rows)\<rparr>)"
  by (rule for_range_log) (simp add: call_predictor_def assms)

lemma for_range_predict:
  assumes "execute tf (PDict [(''instances'', instances)]) (model_url version) = Inr response"
    and "extract_class_ids response = Inr ids"
  shows "for_range n (predict tf version instances) acc w =
    (Inr (if n = 0 then acc else Some (PList ids)),
     w\<lparr>calls := calls w @
        replicate n (Execute (PDict [(''instances'', instances)]) (model_url version))\<rparr>)"
  by (rule for_range_log) (simp add: predict_apply [OF assms(1)] assms(2))

lemma replicate_100: "replicate 100 x = x # replicate 99 x"
  by (simp add: numeral_eq_Suc)

lemma notebook_instance_returns:
  "fst (run_notebook notebook_tf notebook_sh empty_world) = Inr ()"
  by (simp add: run_notebook_def run_cell_def run_shell_cell_def run_python_cell_def
      shell_cells_def cells shell_saved_model_dir_def saved_models_base_def attempt_def
      run_experiment_def run_command_def
      run_inspect_def last_export_def os_listdir_def delete_if_exists_apply
      get_graph_def_from_saved_model_def
      bnd_apply print_apply prints_apply ret_apply raise_apply now_apply
      notebook_sh_def notebook_tf_def example_tf_def empty_world_def
      model_dir_def export_dir_def os_path_join_def os_path_exists_def below_def
      delete_tree_def gfile_delete_recursively_def os_path_getsize_def
      inference_test_def load_predictor_def for_range_call_predictor slice_to_def dict_get_def
      replicate_100 describe_graph_def example_graph_def optimised_graph_def headless_graph_def
      example_bytes_def get_size_def freeze_graph_apply get_graph_def_from_file_apply
      optimize_graph_def write_graph_def convert_graph_def_to_saved_model_def
      inference_cmle_def instances_of_def predict_apply for_range_predict
      extract_class_ids_def transforms_def Let_def)

theorem notebook_run_pipeline_witness:
  "\<exists>w. run_notebook notebook_tf notebook_sh empty_world = (Inr (), w) \<and>
     files w =
       [(''models/mnist/cnn_classifier/model.ckpt'', ''weights''),
        (''models/mnist/cnn_classifier/export/1538687457/saved_model.pb'', ''graph''),
        (''models/mnist/cnn_classifier/export/1538687457/freezed_model.pb'',
         example_bytes example_graph),
        (''models/mnist/cnn_classifier/export/1538687457/optimised_model.pb'',
         example_bytes optimised_graph),
        (''models/mnist/cnn_classifier/export/1538687457/optimised/saved_model.pb'',
         ''saved_model''),
        (''gs://ksalama-gcs-cloudml/tf-model-optimisation/original/saved_model.pb'', ''graph''),
        (''gs://ksalama-gcs-cloudml/tf-model-optimisation/saved_model.pb'', ''saved_model'')]"
proof -
  let ?d = "''models/mnist/cnn_classifier/export/1538687457''"
  let ?fs2 = "[(''models/mnist/cnn_classifier/model.ckpt'', ''weights''),
               (?d @ ''/saved_model.pb'', ''graph'')]"
  let ?fs3 = "?fs2 @ [(?d @ ''/freezed_model.pb'', example_bytes example_graph)]"
  let ?fs4 = "?fs3 @ [(?d @ ''/optimised_model.pb'', example_bytes optimised_graph)]"
  let ?fs5 = "?fs4 @ [(?d @ ''/optimised/saved_model.pb'', ''saved_model'')]"
  let ?fs7 = "?fs5 @ [(''gs://ksalama-gcs-cloudml/tf-model-optimisation/original/saved_model.pb'',
                       ''graph'')]"
  let ?fs8 = "?fs7 @ [(''gs://ksalama-gcs-cloudml/tf-model-optimisation/saved_model.pb'',
                       ''saved_model'')]"
  obtain r W where "run_notebook notebook_tf notebook_sh empty_world = (r, W)"
    by (cases "run_notebook notebook_tf notebook_sh empty_world")
  with notebook_instance_returns have h:
    "run_notebook notebook_tf notebook_sh empty_world = (Inr (), W)"
    by simp
  from notebook_run_pipeline [OF h]
  obtain fs1 fs2 names d fs3 bytes g g' g'' graph inputs class_ids fs5 fs6 fs7 fs8 fs9 fs10
    where
    c1: "command notebook_sh (TrainAndEvaluate model_dir)
           (delete_tree model_dir (files empty_world)) = Inr fs1" and
    c2: "command notebook_sh (ExportSavedmodel export_dir) (delete_tree export_dir fs1)
           = Inr fs2" and
    ls: "os_listdir fs2 export_dir = Inr names" and
    d: "d = os_path_join export_dir (last names)" and
    c3: "tools_freeze_graph notebook_tf
      \<lparr>input_saved_model_dir = d,
       output_graph = os_path_join d ''freezed_model.pb'',
       saved_model_tags = ''serve'',
       output_node_names = ''head/predictions/ExpandDims'',
       initializer_nodes = '''',
       input_graph = None,
       input_saver = False,
       input_binary = False,
       input_checkpoint = None,
       restore_op_name = None,
       filename_tensor_name = None,
       clear_devices = False,
       input_meta_graph = False\<rparr> fs2 = Inr fs3" and
    rd: "map_of fs3 (os_path_join d ''freezed_model.pb'') = Some bytes" and
    ps: "ParseFromString notebook_tf bytes = Some g" and
    tr: "TransformGraph notebook_tf g [] [''head/predictions/ExpandDims''] transforms = Inr g'" and
    ps': "ParseFromString notebook_tf (SerializeToString notebook_tf g') = Some g''" and
    im: "import_graph_def notebook_tf g'' = Inr graph" and
    ct: "get_tensor_by_name notebook_tf graph ''head/predictions/ExpandDims:0''
           = Inr class_ids" and
    sv: "simple_save notebook_tf graph (os_path_join d ''optimised'') inputs
           [(''class_ids'', class_ids)]
           (delete_tree (os_path_join d ''optimised'')
              (AList.update (os_path_join d ''optimised_model.pb'')
                 (SerializeToString notebook_tf g') fs3)) = Inr fs5" and
    c6: "command notebook_sh (GsutilRm (''gs://'' @ BUCKET @ ''/tf-model-optimisation'')) fs5
           = Inr fs6" and
    c7: "command notebook_sh
           (GsutilCp (shell_saved_model_dir notebook_sh fs6)
              (''gs://'' @ BUCKET @ ''/tf-model-optimisation/original'')) fs6
           = Inr fs7" and
    c8: "command notebook_sh
           (GsutilCp (shell_saved_model_dir notebook_sh fs7 @ ''/optimised'')
              (''gs://'' @ BUCKET @ ''/tf-model-optimisation'')) fs7
           = Inr fs8" and
    c9: "command notebook_sh (ModelsCreate MODEL_NAME) fs8 = Inr fs9" and
    c10: "command notebook_sh
            (VersionsCreate ''v_org'' MODEL_NAME
               (''gs://'' @ BUCKET @ ''/tf-model-optimisation/original'')) fs9 = Inr fs10" and
    c11: "command notebook_sh
            (VersionsCreate ''v_opt'' MODEL_NAME
               (''gs://'' @ BUCKET @ ''/tf-model-optimisation/optimised'')) fs10
            = Inr (files W)"
    by (elim exE conjE) (rule that, assumption+)
  from c1 have fs1: "fs1 = [(''models/mnist/cnn_classifier/model.ckpt'', ''weights'')]"
    by (simp add: notebook_sh_def empty_world_def model_dir_def os_path_join_def
        delete_tree_def)
  from c2 have fs2: "fs2 = ?fs2"
    unfolding fs1
    by (simp add: notebook_sh_def model_dir_def export_dir_def os_path_join_def
        delete_tree_def below_def)
  from ls d have d': "d = ?d"
    unfolding fs2
    by (auto simp: os_listdir_def model_dir_def export_dir_def os_path_join_def Let_def)
  from c3 have fs3: "fs3 = ?fs3"
    unfolding fs2 d'
    by (simp add: notebook_tf_def example_tf_def os_path_join_def)
  from rd have bytes: "bytes = example_bytes example_graph"
    unfolding fs3 d' by (simp add: os_path_join_def)
  from ps have g: "g = example_graph"
    unfolding bytes by (simp add: notebook_tf_def)
  from tr have g': "g' = optimised_graph"
    unfolding g
    by (auto simp: notebook_tf_def example_tf_def example_graph_def optimised_graph_def)
  from sv have fs5: "fs5 = ?fs5"
    unfolding fs3 d' g'
    by (simp add: notebook_tf_def example_tf_def os_path_join_def delete_tree_def below_def)
  from c6 have fs6: "fs6 = ?fs5"
    unfolding fs5 by (simp add: notebook_sh_def)
  have sd: "shell_saved_model_dir notebook_sh ?fs5 = ?d"
    "shell_saved_model_dir notebook_sh ?fs7 = ?d"
    by (simp_all add: shell_saved_model_dir_def saved_models_base_def notebook_sh_def
        os_listdir_def Let_def)
  from c7 have fs7: "fs7 = ?fs7"
    unfolding fs6 sd by (simp add: notebook_sh_def BUCKET_def os_path_join_def)
  from c8 have fs8: "fs8 = ?fs8"
    unfolding fs7 sd by (simp add: notebook_sh_def BUCKET_def os_path_join_def)
  from c9 have fs9: "fs9 = ?fs8"
    unfolding fs8 by (simp add: notebook_sh_def)
  from c10 have fs10: "fs10 = ?fs8"
    unfolding fs9 by (simp add: notebook_sh_def)
  from c11 have "files W = ?fs8"
    unfolding fs10 by (simp add: notebook_sh_def)
  then have "files W =
       [(''models/mnist/cnn_classifier/model.ckpt'', ''weights''),
        (''models/mnist/cnn_classifier/export/1538687457/saved_model.pb'', ''graph''),
        (''models/mnist/cnn_classifier/export/1538687457/freezed_model.pb'',
         example_bytes example_graph),
        (''models/mnist/cnn_classifier/export/1538687457/optimised_model.pb'',
         example_bytes optimised_graph),
        (''models/mnist/cnn_classifier/export/1538687457/optimised/saved_model.pb'',
         ''saved_model''),
        (''gs://ksalama-gcs-cloudml/tf-model-optimisation/original/saved_model.pb'', ''graph''),
        (''gs://ksalama-gcs-cloudml/tf-model-optimisation/saved_model.pb'', ''saved_model'')]"
    by simp
  with h show ?thesis
    by (intro exI [of _ W] conjI)
qed

end
